theory Spec2Isabelle
  imports Main "HOL-Library.Char_ord" "HOL-Library.List_Lexorder" "HOL-Library.AList"
    "HOL-Library.Sublist"
begin

section \<open>Go runtime and standard library, as far as the client uses them\<close>

text \<open>
  The client (package \<open>qvrpro\<close>) exists in two versions: \<^verbatim>\<open>src/qvrpro.go\<close> and
  \<^verbatim>\<open>src/unnamed/part_000\<close>. The second adds the application identity
  (\<open>qvrApp\<close>), checks the error of \<open>client.Get\<close> in more places and closes
  response bodies with \<open>defer\<close>. A function that differs between the two is
  modelled twice; the version of \<^verbatim>\<open>part_000\<close> carries the suffix \<open>_p0\<close>.

  A Go function returns normally or stops the goroutine: a nil pointer
  dereference or an index out of range panics, \<open>os.Exit\<close> ends the process.
  Both are values of \<open>abort\<close>; the state reached at that point is kept with it.
\<close>

datatype abort = NilDereference | IndexOutOfRange nat nat | Exit int

type_synonym ('a, 's) outcome = "(abort \<times> 's) + ('a \<times> 's)"

text \<open>\<open>v[i]\<close> on a slice: the element, or the panic of the runtime.\<close>

definition index :: "'a list \<Rightarrow> nat \<Rightarrow> abort + 'a" where
  "index v i = (if i < length v then Inr (v ! i) else Inl (IndexOutOfRange i (length v)))"

text \<open>Conversion of an integer to a 32-bit and to a 64-bit signed integer (two's complement).\<close>

definition int32 :: "int \<Rightarrow> int" where
  "int32 x = (x + 2 ^ 31) mod 2 ^ 32 - 2 ^ 31"

definition int64 :: "int \<Rightarrow> int" where
  "int64 x = (x + 2 ^ 63) mod 2 ^ 64 - 2 ^ 63"

subsection \<open>Package strings\<close>

definition nl :: char where
  "nl = CHR 0x0A"

text \<open>
  \<open>strings.Split(s, sep)\<close> for a separator of one byte (the client only splits
  at \<open>"\n"\<close>): the pieces between the separators; a string without the
  separator is its own single piece, the empty string included.
\<close>

fun strings_Split :: "string \<Rightarrow> char \<Rightarrow> string list" where
  "strings_Split [] sep = [[]]"
| "strings_Split (c # cs) sep =
     (if c = sep then [] # strings_Split cs sep
      else (case strings_Split cs sep of
              [] \<Rightarrow> [[c]]
            | x # xs \<Rightarrow> (c # x) # xs))"

text \<open>\<open>strings.Cut(s, sep)\<close> for a separator of one byte: before, after, found.\<close>

definition cut_before :: "string \<Rightarrow> char \<Rightarrow> string" where
  "cut_before s sep = takeWhile (\<lambda>c. c \<noteq> sep) s"

definition cut_after :: "string \<Rightarrow> char \<Rightarrow> string" where
  "cut_after s sep = drop 1 (dropWhile (\<lambda>c. c \<noteq> sep) s)"

definition strings_Cut :: "string \<Rightarrow> char \<Rightarrow> string \<times> string \<times> bool" where
  "strings_Cut s sep = (cut_before s sep, cut_after s sep, sep \<in> set s)"

subsection \<open>Package strconv\<close>

definition is_digit :: "char \<Rightarrow> bool" where
  "is_digit c = (48 \<le> (of_char c :: nat) \<and> (of_char c :: nat) \<le> 57)"

definition digit_val :: "char \<Rightarrow> int" where
  "digit_val c = of_char c - 48"

datatype NumError = ErrSyntax | ErrRange

text \<open>
  \<open>strconv.ParseUint(s, 10, 64)\<close>, the loop over the bytes with the number
  read so far: a byte that is not a digit is a syntax error (value 0); once
  the number would pass \<open>2^64 - 1\<close> the loop stops with a range error (value
  \<open>2^64 - 1\<close>) and does not look at the bytes that follow. The empty text is
  a syntax error.
\<close>

fun parse_uint :: "int \<Rightarrow> string \<Rightarrow> int \<times> NumError option" where
  "parse_uint n [] = (n, None)"
| "parse_uint n (c # cs) =
     (if \<not> is_digit c then (0, Some ErrSyntax)
      else if n \<ge> (2 ^ 64 - 1) div 10 + 1 then (2 ^ 64 - 1, Some ErrRange)
      else if n * 10 + digit_val c > 2 ^ 64 - 1 then (2 ^ 64 - 1, Some ErrRange)
      else parse_uint (n * 10 + digit_val c) cs)"

definition strconv_ParseUint :: "string \<Rightarrow> int \<times> NumError option" where
  "strconv_ParseUint s = (if s = [] then (0, Some ErrSyntax) else parse_uint 0 s)"

text \<open>
  \<open>strconv.Atoi\<close> on a platform whose \<open>int\<close> has 64 bits: one optional
  sign, then \<open>ParseUint\<close>. A syntax error gives 0; a range error of
  \<open>ParseUint\<close> or a value outside \<open>int64\<close> gives the nearest bound with a
  range error. (For a text of fewer than 19 bytes \<open>Atoi\<close> runs its own
  loop over the digits, with the same result.)
\<close>

definition strconv_Atoi :: "string \<Rightarrow> int \<times> NumError option" where
  "strconv_Atoi s =
     (if s = [] then (0, Some ErrSyntax)
      else
        let neg = (hd s = CHR ''-'');
            ds = (if hd s = CHR ''-'' \<or> hd s = CHR ''+'' then tl s else s);
            (un, err) = strconv_ParseUint ds
        in if err = Some ErrSyntax then (0, Some ErrSyntax)
           else if \<not> neg \<and> un \<ge> 2 ^ 63 then (2 ^ 63 - 1, Some ErrRange)
           else if neg \<and> un > 2 ^ 63 then (- (2 ^ 63), Some ErrRange)
           else (if neg then - un else un, None))"

text \<open>\<open>strconv.Itoa\<close>: the decimal text of an integer.\<close>

definition digit_char :: "nat \<Rightarrow> char" where
  "digit_char d = char_of (48 + d)"

function decimal_text :: "int \<Rightarrow> string" where
  "decimal_text n =
     (if n < 10 then [digit_char (nat n)]
      else decimal_text (n div 10) @ [digit_char (nat (n mod 10))])"
  by pat_completeness auto
termination
  by (relation "measure nat") auto

declare decimal_text.simps [simp del]

definition strconv_Itoa :: "int \<Rightarrow> string" where
  "strconv_Itoa i = (if i < 0 then CHR ''-'' # decimal_text (- i) else decimal_text i)"

subsection \<open>The C helper behind \<open>convertHexToInt\<close>\<close>

text \<open>
  \<^verbatim>\<open>int hexToInt(char *hexString){ return strtol(hexString, NULL, 0); }\<close>

  \<open>strtol\<close> with base 0 skips white space, reads a sign, takes \<open>0x\<close> for
  base 16, a leading \<open>0\<close> for base 8 and base 10 otherwise, reads the longest
  run of digits of that base and clamps the value to the range of \<open>long\<close>
  (64 bits here). The C function returns \<open>int\<close>: the \<open>long\<close> is narrowed to
  32 bits (modulo \<open>2^32\<close>, as gcc and clang do on the platforms cgo supports).
\<close>

definition isspace :: "char \<Rightarrow> bool" where
  "isspace c = ((of_char c :: nat) = 32 \<or> (9 \<le> (of_char c :: nat) \<and> (of_char c :: nat) \<le> 13))"

definition digit_of :: "char \<Rightarrow> nat" where
  "digit_of c =
     (let n = (of_char c :: nat) in
      if 48 \<le> n \<and> n \<le> 57 then n - 48
      else if 97 \<le> n \<and> n \<le> 122 then n - 87
      else if 65 \<le> n \<and> n \<le> 90 then n - 55
      else 36)"

definition strtol :: "string \<Rightarrow> int" where
  "strtol str =
     (let s = dropWhile isspace str;
          neg = (s \<noteq> [] \<and> hd s = CHR ''-'');
          s = (if s \<noteq> [] \<and> (hd s = CHR ''-'' \<or> hd s = CHR ''+'') then tl s else s);
          hex = (length s \<ge> 3 \<and> s ! 0 = CHR ''0'' \<and> (s ! 1 = CHR ''x'' \<or> s ! 1 = CHR ''X'')
                 \<and> digit_of (s ! 2) < 16);
          base = (if hex then 16 else if s \<noteq> [] \<and> hd s = CHR ''0'' then 8 else 10);
          s = (if hex then drop 2 s else s);
          ds = takeWhile (\<lambda>c. digit_of c < base) s;
          n = foldl (\<lambda>n c. int base * n + int (digit_of c)) 0 ds
      in if neg then max (- (2 ^ 63)) (- n) else min (2 ^ 63 - 1) n)"

definition hexToInt :: "string \<Rightarrow> int" where
  "hexToInt hexString = int32 (strtol hexString)"

definition convertHexToInt :: "string \<Rightarrow> int" where
  "convertHexToInt hexString = hexToInt hexString"

subsection \<open>Package net/url: query strings\<close>

text \<open>
  \<open>url.Values\<close> is \<open>map[string][]string\<close>: an association list with distinct
  keys. \<open>Add\<close> appends a value to the values of its key.
\<close>

type_synonym Values = "(string \<times> string list) list"

definition Values_Add :: "Values \<Rightarrow> string \<Rightarrow> string \<Rightarrow> Values" where
  "Values_Add v key val =
     AList.update key ((case map_of v key of None \<Rightarrow> [] | Some vs \<Rightarrow> vs) @ [val]) v"

text \<open>
  \<open>QueryEscape\<close>: letters, digits and \<open>- _ . ~\<close> stay, a space becomes
  \<open>+\<close>, every other byte becomes \<open>%XX\<close> with upper-case hexadecimal digits.
\<close>

definition is_alnum :: "char \<Rightarrow> bool" where
  "is_alnum c =
     (let n = (of_char c :: nat) in
      (97 \<le> n \<and> n \<le> 122) \<or> (65 \<le> n \<and> n \<le> 90) \<or> (48 \<le> n \<and> n \<le> 57))"

definition shouldEscape :: "char \<Rightarrow> bool" where
  "shouldEscape c = (\<not> (is_alnum c \<or> c = CHR ''-'' \<or> c = CHR ''_'' \<or> c = CHR ''.'' \<or> c = CHR ''~''))"

definition upperhex :: "nat \<Rightarrow> char" where
  "upperhex n = ''0123456789ABCDEF'' ! n"

definition escape_byte :: "char \<Rightarrow> string" where
  "escape_byte c =
     (if c = CHR '' '' then ''+''
      else if shouldEscape c
        then [CHR ''%'', upperhex ((of_char c :: nat) div 16), upperhex ((of_char c :: nat) mod 16)]
      else [c])"

definition QueryEscape :: "string \<Rightarrow> string" where
  "QueryEscape s = concat (map escape_byte s)"

text \<open>
  \<open>Values.Encode\<close>: the keys in sorted order, for each key its values in
  order, as \<open>key=value\<close> joined by \<open>&\<close>, keys and values escaped.
\<close>

fun join_amp :: "string list \<Rightarrow> string" where
  "join_amp [] = []"
| "join_amp [x] = x"
| "join_amp (x # y # ys) = x @ CHR ''&'' # join_amp (y # ys)"

definition encode_key :: "Values \<Rightarrow> string \<Rightarrow> string list" where
  "encode_key v k =
     map (\<lambda>x. QueryEscape k @ CHR ''='' # QueryEscape x)
       (case map_of v k of None \<Rightarrow> [] | Some vs \<Rightarrow> vs)"

definition Values_Encode :: "Values \<Rightarrow> string" where
  "Values_Encode v = join_amp (concat (map (encode_key v) (sort (map fst v))))"

text \<open>
  \<open>QueryUnescape\<close>: \<open>%XX\<close> becomes the byte, \<open>+\<close> a space; a \<open>%\<close> that two
  hexadecimal digits do not follow is an error.
\<close>

definition ishex :: "char \<Rightarrow> bool" where
  "ishex c = (digit_of c < 16)"

definition unhex :: "char \<Rightarrow> nat" where
  "unhex c = (if ishex c then digit_of c else 0)"

fun QueryUnescape :: "string \<Rightarrow> string + string" where
  "QueryUnescape [] = Inr []"
| "QueryUnescape (c # cs) =
     (if c = CHR ''%'' then
        (case cs of
           h1 # h2 # rest \<Rightarrow>
             if ishex h1 \<and> ishex h2 then
               (case QueryUnescape rest of
                  Inl e \<Rightarrow> Inl e
                | Inr r \<Rightarrow> Inr (char_of (unhex h1 * 16 + unhex h2) # r))
             else Inl (''invalid URL escape '' @ take 3 (c # cs))
         | _ \<Rightarrow> Inl (''invalid URL escape '' @ take 3 (c # cs)))
      else
        (case QueryUnescape cs of
           Inl e \<Rightarrow> Inl e
         | Inr r \<Rightarrow> Inr ((if c = CHR ''+'' then CHR '' '' else c) # r)))"

text \<open>
  \<open>ParseQuery\<close>: the pairs between \<open>&\<close>, each cut at its first \<open>=\<close> and
  unescaped; a pair with \<open>;\<close> or a bad escape is skipped and reported (the
  first bad escape, the last semicolon); the values found are returned along
  with the error.
\<close>

lemma length_cut_after: "s \<noteq> [] \<Longrightarrow> length (cut_after s sep) < length s"
proof -
  assume ne: "s \<noteq> []"
  have le: "length (dropWhile (\<lambda>c. c \<noteq> sep) s) \<le> length s"
    by (rule length_dropWhile_le)
  show ?thesis
    using ne le by (cases s) (auto simp: cut_after_def)
qed

function parseQuery :: "Values \<Rightarrow> string option \<Rightarrow> string \<Rightarrow> Values \<times> string option" where
  "parseQuery m err query =
     (if query = [] then (m, err)
      else
        let key = cut_before query (CHR ''&'');
            rest = cut_after query (CHR ''&'')
        in if CHR '';'' \<in> set key then
             parseQuery m (Some ''invalid semicolon separator in query'') rest
           else if key = [] then parseQuery m err rest
           else
             (case QueryUnescape (cut_before key (CHR ''='')) of
                Inl e \<Rightarrow> parseQuery m (if err = None then Some e else err) rest
              | Inr k \<Rightarrow>
                 (case QueryUnescape (cut_after key (CHR ''='')) of
                    Inl e \<Rightarrow> parseQuery m (if err = None then Some e else err) rest
                  | Inr val \<Rightarrow> parseQuery (Values_Add m k val) err rest)))"
  by pat_completeness auto
termination
  by (relation "measure (\<lambda>(m, err, query). length query)") (auto simp: length_cut_after)

declare parseQuery.simps [simp del]

definition ParseQuery :: "string \<Rightarrow> Values \<times> string option" where
  "ParseQuery query = parseQuery [] None query"

section \<open>The data of the client\<close>

text \<open>
  \<open>url.URL\<close> with the fields that matter here: \<open>url.Parse\<close> fills them, the
  client overwrites \<open>Path\<close> and \<open>RawQuery\<close>.
\<close>

record URL =
  Scheme :: string
  Host :: string
  Path :: string
  RawQuery :: string
  Fragment :: string

text \<open>
  A response body, as its reader receives it: the pieces of the \<open>Read\<close>
  calls that return no error (\<open>reads\<close>), then the last \<open>Read\<close>, which
  returns the bytes \<open>final\<close> (possibly none) together with \<open>io.EOF\<close>
  (\<open>readErr = None\<close>) or with a read error. The body ends: a server that
  never finishes its answer is outside the model. \<open>*http.Response\<close> is a
  pointer: a failed \<open>client.Get\<close> returns nil for it (\<open>None\<close>).
\<close>

record ReadCloser =
  reads :: "string list"
  final :: string
  readErr :: "string option"

record Response =
  Header :: "(string \<times> string list) list"
  Body :: ReadCloser

text \<open>All bytes of a body; \<open>io.ReadAll\<close> returns them with the read error (nil at \<open>io.EOF\<close>).\<close>

definition content :: "ReadCloser \<Rightarrow> string" where
  "content r = concat (reads r) @ final r"

definition io_ReadAll :: "ReadCloser \<Rightarrow> string \<times> string option" where
  "io_ReadAll r = (content r, readErr r)"

text \<open>\<open>QDocRoot\<close>: of the 24 fields decoded from the login response, the two the client reads.\<close>

record QDocRoot =
  AuthPassed :: int
  AuthSid :: string

text \<open>
  \<open>Connection\<close>. The struct of \<^verbatim>\<open>src/qvrpro.go\<close> has no \<open>qvrApp\<close>; its
  functions never read the field.
\<close>

record Connection =
  url :: string
  sid :: string
  expire :: int
  timeout :: int
  qvrApp :: string

record LogEntry =
  UTCTime :: int
  UTCTimeS :: string
  Content :: string
  Level :: int
  LogID :: int
  LogType :: int
  NasIP :: string
  NasName :: string
  ServerTime :: int
  SourceIP :: string
  SourceName :: string
  Time :: string
  Timezone :: string
  TimezoneOrder :: int
  User :: string
  Action :: string
  Args :: "string list"
  ChannelID :: int
  EventID :: int
  GlobalChannelID :: string
  MainType :: int
  SubType :: int
  SubTypeOrder :: int
  Application :: string

record LogsResponse =
  Code :: int
  Items :: "LogEntry list"
  Mesg :: string
  ResponseItems :: int
  TotalItems :: int

definition AllLogType :: nat where
  "AllLogType = 0"

definition DataTypeJPeg :: int where
  "DataTypeJPeg = 0"

definition apiPlayVersion :: string where
  "apiPlayVersion = ''v1''"

definition qvrPlayPath :: string where
  "qvrPlayPath = ''/qvrpro/apis/qplay.cgi''"

definition PlayPath :: "Connection \<Rightarrow> string" where
  "PlayPath connection = ''/'' @ qvrApp connection @ ''/apis/qplay.cgi''"

definition LogsPath :: "Connection \<Rightarrow> string" where
  "LogsPath connection = ''/'' @ qvrApp connection @ ''/logs/logs''"

text \<open>
  \<open>errorCodes\<close> as \<open>Create\<close> fills it, one assignment after the other; every
  key goes through \<open>convertHexToInt\<close>.
\<close>

definition errorCodes :: "int \<rightharpoonup> string" where
  "errorCodes = Map.empty
     (convertHexToInt ''0x93010002'' \<mapsto> ''failed to open play session'',
      convertHexToInt ''0x93010006'' \<mapsto> ''sid authentication failed'',
      convertHexToInt ''0x93010007'' \<mapsto> ''failed to open session (session num full)'',
      convertHexToInt ''0x93010102'' \<mapsto> ''start_time, end_time or time_val not specified'',
      convertHexToInt ''0x93010103'' \<mapsto> ''channel_id not specified'',
      convertHexToInt ''0x93010104'' \<mapsto> ''session_id not specified'',
      convertHexToInt ''0x93010107'' \<mapsto> ''seek_time not specified'',
      convertHexToInt ''0x93010108'' \<mapsto> ''session_id too long'',
      convertHexToInt ''0x93010109'' \<mapsto> ''speed_num not specified'',
      convertHexToInt ''0x9301010B'' \<mapsto> ''enable not specified'',
      convertHexToInt ''0x93010201'' \<mapsto> ''failed to control stream'',
      convertHexToInt ''0x93010202'' \<mapsto> ''session not found'',
      convertHexToInt ''0x93010203'' \<mapsto> ''session is being closed'',
      convertHexToInt ''0x93010204'' \<mapsto> ''no files found'',
      convertHexToInt ''0x93010003'' \<mapsto> ''cmd is illegal'',
      convertHexToInt ''0x93010004'' \<mapsto> ''insufficient memory'',
      convertHexToInt ''0x93000000'' \<mapsto> ''Illegal Args'',
      convertHexToInt ''0x93000001'' \<mapsto> ''Rejected Connection (DDOS)'',
      convertHexToInt ''0x93000002'' \<mapsto> ''Exceeded Max Connection number'',
      convertHexToInt ''0x93000003'' \<mapsto> ''Stream not ready'',
      convertHexToInt ''0x93000004'' \<mapsto> ''Failed to start the stream'',
      convertHexToInt ''0x93000005'' \<mapsto> ''Auth failed'')"

text \<open>\<open>Create\<close>, on its first call: the connection it builds.\<close>

definition Create :: "string \<Rightarrow> string \<Rightarrow> int \<Rightarrow> Connection" where
  "Create u app tmo = \<lparr>url = u, sid = [], expire = 0, timeout = tmo, qvrApp = app\<rparr>"

section \<open>The world outside the client\<close>

text \<open>
  What the client calls and does not define is a parameter: parsing and
  printing of URLs, the HTTP client (its answer may depend on the requests
  made before), the XML and JSON decoders, and the clock (the value of each
  successive reading). A Go \<open>error\<close> is its message; \<open>None\<close> is nil.
\<close>

record env =
  url_Parse :: "string \<Rightarrow> string + URL"
  url_String :: "URL \<Rightarrow> string"
  client_Get :: "URL list \<Rightarrow> URL \<Rightarrow> Response option \<times> string option"
  xml_Unmarshal :: "string \<Rightarrow> string + QDocRoot"
  json_Unmarshal :: "string \<Rightarrow> string + LogsResponse"
  time_Now_Unix :: "nat \<Rightarrow> int"

text \<open>
  What the client does to the world: the requests it sends (each the URL value
  whose \<open>String()\<close> goes to \<open>client.Get\<close>), the lines it logs and prints, the
  number of clock readings, and what it writes to the \<open>http.ResponseWriter\<close>
  it was given.
\<close>

record world =
  requests :: "URL list"
  logged :: "string list"
  printed :: "string list"
  clock :: nat
  writer_header :: "(string \<times> string list) list"
  writer_body :: string

definition http_Get :: "env \<Rightarrow> URL \<Rightarrow> world \<Rightarrow> (Response option \<times> string option) \<times> world" where
  "http_Get E u w = (client_Get E (requests w) u, w\<lparr>requests := requests w @ [u]\<rparr>)"

definition time_Now :: "env \<Rightarrow> world \<Rightarrow> int \<times> world" where
  "time_Now E w = (time_Now_Unix E (clock w), w\<lparr>clock := Suc (clock w)\<rparr>)"

definition log_Print :: "string \<Rightarrow> world \<Rightarrow> world" where
  "log_Print m w = w\<lparr>logged := logged w @ [m]\<rparr>"

definition log_Println :: "string \<Rightarrow> string \<Rightarrow> world \<Rightarrow> world" where
  "log_Println a b w = log_Print (a @ '' '' @ b) w"

definition log_INFO :: "string \<Rightarrow> world \<Rightarrow> world" where
  "log_INFO m w = log_Print (''[INFO] '' @ m) w"

definition fmt_Println :: "string \<Rightarrow> world \<Rightarrow> world" where
  "fmt_Println m w = w\<lparr>printed := printed w @ [m]\<rparr>"

section \<open>Session: Logout and Login\<close>

text \<open>
  \<^verbatim>\<open>src/qvrpro.go\<close>, \<open>Logout\<close>: tell the server, log a failure, clear the session.
\<close>

definition Logout :: "env \<Rightarrow> Connection \<Rightarrow> world \<Rightarrow> (unit, Connection \<times> world) outcome" where
  "Logout E connection w =
     (let w =
        (case url_Parse E (url connection) of
           Inl e \<Rightarrow> log_Println ''Malformed URL: '' e w
         | Inr baseUrl \<Rightarrow>
             let baseUrl = baseUrl\<lparr>Path := ''/cgi-bin/authLogin.cgi''\<rparr>;
                 params = [];
                 params = Values_Add params ''logout'' ''1'';
                 params = Values_Add params ''sid'' (sid connection);
                 baseUrl = baseUrl\<lparr>RawQuery := Values_Encode params\<rparr>;
                 ((response, err), w) = http_Get E baseUrl w
             in (case err of None \<Rightarrow> w | Some e \<Rightarrow> log_Print e w))
      in Inr ((), (connection\<lparr>expire := 0, sid := []\<rparr>, w)))"

text \<open>
  \<^verbatim>\<open>src/unnamed/part_000\<close>, \<open>Logout\<close>: after the request it defers
  \<open>Body.Close()\<close> with the argument \<open>response.Body\<close>, which is evaluated at
  the \<open>defer\<close> statement: with a nil response this is a nil dereference,
  before the session is cleared.
\<close>

definition Logout_p0 :: "env \<Rightarrow> Connection \<Rightarrow> world \<Rightarrow> (unit, Connection \<times> world) outcome" where
  "Logout_p0 E connection w =
     (case url_Parse E (url connection) of
        Inl e \<Rightarrow>
          Inr ((), (connection\<lparr>expire := 0, sid := []\<rparr>, log_Println ''Malformed URL: '' e w))
      | Inr baseUrl \<Rightarrow>
          let baseUrl = baseUrl\<lparr>Path := ''/cgi-bin/authLogin.cgi''\<rparr>;
              params = [];
              params = Values_Add params ''logout'' ''1'';
              params = Values_Add params ''sid'' (sid connection);
              baseUrl = baseUrl\<lparr>RawQuery := Values_Encode params\<rparr>;
              w = log_INFO (url_String E baseUrl) w;
              ((response, err), w) = http_Get E baseUrl w;
              w = (case err of None \<Rightarrow> w | Some e \<Rightarrow> log_Print e w)
          in (case response of
                None \<Rightarrow> Inl (NilDereference, (connection, w))
              | Some r \<Rightarrow> Inr ((), (connection\<lparr>expire := 0, sid := []\<rparr>, w))))"

text \<open>
  \<open>Login\<close>, the same text in both files but for the \<open>Logout\<close> it calls. The
  clock is read only when the session id is not empty (\<open>&&\<close>), and again
  when the new expiry is computed; the sum is an \<open>int64\<close>.
\<close>

definition Login ::
  "env \<Rightarrow> Connection \<Rightarrow> string \<Rightarrow> string \<Rightarrow> world \<Rightarrow> (bool, Connection \<times> world) outcome" where
  "Login E connection user password w =
     (let (valid, w) =
            (if length (sid connection) > 0
             then (let (now, w) = time_Now E w in (expire connection > now, w))
             else (False, w))
      in if valid then Inr (True, (connection, w))
      else
        (case url_Parse E (url connection) of
           Inl e \<Rightarrow>
             (case Logout E connection (log_Println ''Malformed URL: '' e w) of
                Inl a \<Rightarrow> Inl a
              | Inr (u, s) \<Rightarrow> Inr (False, s))
         | Inr baseUrl \<Rightarrow>
             let baseUrl = baseUrl\<lparr>Path := ''/cgi-bin/authLogin.cgi''\<rparr>;
                 params = [];
                 params = Values_Add params ''serviceKey'' ''1'';
                 params = Values_Add params ''pwd'' password;
                 params = Values_Add params ''user'' user;
                 baseUrl = baseUrl\<lparr>RawQuery := Values_Encode params\<rparr>;
                 w = log_INFO (url_String E baseUrl) w;
                 ((response, err), w) = http_Get E baseUrl w
             in (case err of
                   Some e \<Rightarrow>
                     (case Logout E connection (log_Println ''Get Failed: '' e w) of
                        Inl a \<Rightarrow> Inl a
                      | Inr (u, s) \<Rightarrow> Inr (False, s))
                 | None \<Rightarrow>
                     (case response of
                        None \<Rightarrow> Inl (NilDereference, (connection, w))
                      | Some r \<Rightarrow>
                          let (body, err) = io_ReadAll (Body r)
                          in (case err of
                                Some e \<Rightarrow>
                                  (case Logout E connection (log_Print body (log_Print e w)) of
                                     Inl a \<Rightarrow> Inl a
                                   | Inr (u, s) \<Rightarrow> Inr (False, s))
                              | None \<Rightarrow>
                                  let w = log_Print body w
                                  in (case xml_Unmarshal E body of
                                        Inl e \<Rightarrow>
                                          (case Logout E connection (log_Print body (log_Print e w)) of
                                             Inl a \<Rightarrow> Inl a
                                           | Inr (u, s) \<Rightarrow> Inr (False, s))
                                      | Inr qdoc \<Rightarrow>
                                          if AuthPassed qdoc \<noteq> 0 then
                                            (let (now, w) = time_Now E w
                                             in Inr (True,
                                                  (connection\<lparr>sid := AuthSid qdoc,
                                                     expire := int64 (now + timeout connection)\<rparr>, w)))
                                          else Inr (False, (connection, log_Print ''Auth Failed'' w))))))))"

definition Login_p0 ::
  "env \<Rightarrow> Connection \<Rightarrow> string \<Rightarrow> string \<Rightarrow> world \<Rightarrow> (bool, Connection \<times> world) outcome" where
  "Login_p0 E connection user password w =
     (let (valid, w) =
            (if length (sid connection) > 0
             then (let (now, w) = time_Now E w in (expire connection > now, w))
             else (False, w))
      in if valid then Inr (True, (connection, w))
      else
        (case url_Parse E (url connection) of
           Inl e \<Rightarrow>
             (case Logout_p0 E connection (log_Println ''Malformed URL: '' e w) of
                Inl a \<Rightarrow> Inl a
              | Inr (u, s) \<Rightarrow> Inr (False, s))
         | Inr baseUrl \<Rightarrow>
             let baseUrl = baseUrl\<lparr>Path := ''/cgi-bin/authLogin.cgi''\<rparr>;
                 params = [];
                 params = Values_Add params ''serviceKey'' ''1'';
                 params = Values_Add params ''pwd'' password;
                 params = Values_Add params ''user'' user;
                 baseUrl = baseUrl\<lparr>RawQuery := Values_Encode params\<rparr>;
                 w = log_INFO (url_String E baseUrl) w;
                 ((response, err), w) = http_Get E baseUrl w
             in (case err of
                   Some e \<Rightarrow>
                     (case Logout_p0 E connection (log_Println ''Get Failed: '' e w) of
                        Inl a \<Rightarrow> Inl a
                      | Inr (u, s) \<Rightarrow> Inr (False, s))
                 | None \<Rightarrow>
                     (case response of
                        None \<Rightarrow> Inl (NilDereference, (connection, w))
                      | Some r \<Rightarrow>
                          let (body, err) = io_ReadAll (Body r)
                          in (case err of
                                Some e \<Rightarrow>
                                  (case Logout_p0 E connection (log_Print body (log_Print e w)) of
                                     Inl a \<Rightarrow> Inl a
                                   | Inr (u, s) \<Rightarrow> Inr (False, s))
                              | None \<Rightarrow>
                                  let w = log_Print body w
                                  in (case xml_Unmarshal E body of
                                        Inl e \<Rightarrow>
                                          (case Logout_p0 E connection (log_Print body (log_Print e w)) of
                                             Inl a \<Rightarrow> Inl a
                                           | Inr (u, s) \<Rightarrow> Inr (False, s))
                                      | Inr qdoc \<Rightarrow>
                                          if AuthPassed qdoc \<noteq> 0 then
                                            (let (now, w) = time_Now E w
                                             in Inr (True,
                                                  (connection\<lparr>sid := AuthSid qdoc,
                                                     expire := int64 (now + timeout connection)\<rparr>, w)))
                                          else Inr (False, (connection, log_Print ''Auth Failed'' w))))))))"

section \<open>Playback: open, seek, play, get\<close>

text \<open>
  \<open>CreateSessionId\<close>, the open step. The function declares \<open>err\<close> three
  times: \<open>baseUrl, err := url.Parse\<close> at the top, \<open>response, err := client.Get\<close>
  inside the first \<open>if\<close> (here \<open>err1\<close>) and \<open>bodyText, err := io.ReadAll\<close>
  inside the second (here \<open>err2\<close>). The assignment \<open>err = errors.New(message)\<close>
  writes the innermost one; the final \<open>return "", err\<close> returns the outermost,
  which is nil whenever the URL parsed.
\<close>

definition CreateSessionId ::
  "env \<Rightarrow> Connection \<Rightarrow> string \<Rightarrow> int \<Rightarrow> world \<Rightarrow> (string \<times> string option, world) outcome" where
  "CreateSessionId E connection channelId startTime w =
     (case url_Parse E (url connection) of
        Inl e \<Rightarrow> Inr (([], Some e), w)
      | Inr baseUrl \<Rightarrow>
          let err = None;
              baseUrl = baseUrl\<lparr>Path := qvrPlayPath\<rparr>;
              params = [];
              params = Values_Add params ''cmd'' ''open'';
              params = Values_Add params ''sid'' (sid connection);
              params = Values_Add params ''ver'' ''v1'';
              params = Values_Add params ''ch_sid'' channelId;
              params = Values_Add params ''start_time'' (strconv_Itoa startTime);
              params = Values_Add params ''query_type'' ''0'';
              params = Values_Add params ''recording_type'' ''0'';
              params = Values_Add params ''stream'' ''0'';
              params = Values_Add params ''data_type'' ''0'';
              baseUrl = baseUrl\<lparr>RawQuery := Values_Encode params\<rparr>;
              w = log_INFO (url_String E baseUrl) w;
              ((response, err1), w) = http_Get E baseUrl w
          in (case err1 of
                Some e \<Rightarrow> Inr (([], err), log_Print e w)
              | None \<Rightarrow>
                  (case response of
                     None \<Rightarrow> Inl (NilDereference, w)
                   | Some r \<Rightarrow>
                       let (bodyText, err2) = io_ReadAll (Body r)
                       in (case err2 of
                             Some e \<Rightarrow> Inr (([], err), log_Print e w)
                           | None \<Rightarrow>
                               let v = strings_Split bodyText nl
                               in (case index v 1 of
                                     Inl a \<Rightarrow> Inl (a, w)
                                   | Inr v1 \<Rightarrow>
                                       let code = fst (strconv_Atoi v1)
                                       in if code = 0 then
                                            (case index v 2 of
                                               Inl a \<Rightarrow> Inl (a, w)
                                             | Inr v2 \<Rightarrow> Inr ((v2, None), w))
                                          else
                                            (case errorCodes code of
                                               Some message \<Rightarrow> Inr (([], err), log_Print message w)
                                             | None \<Rightarrow> Inr (([], err), w)))))))"

definition CreateSessionId_p0 ::
  "env \<Rightarrow> Connection \<Rightarrow> string \<Rightarrow> int \<Rightarrow> world \<Rightarrow> (string \<times> string option, world) outcome" where
  "CreateSessionId_p0 E connection channelId startTime w =
     (case url_Parse E (url connection) of
        Inl e \<Rightarrow> Inr (([], Some e), w)
      | Inr baseUrl \<Rightarrow>
          let err = None;
              baseUrl = baseUrl\<lparr>Path := (PlayPath connection)\<rparr>;
              params = [];
              params = Values_Add params ''cmd'' ''open'';
              params = Values_Add params ''sid'' (sid connection);
              params = Values_Add params ''ver'' ''v1'';
              params = Values_Add params ''ch_sid'' channelId;
              params = Values_Add params ''start_time'' (strconv_Itoa startTime);
              params = Values_Add params ''query_type'' ''0'';
              params = Values_Add params ''recording_type'' ''0'';
              params = Values_Add params ''stream'' ''0'';
              params = Values_Add params ''data_type'' ''0'';
              baseUrl = baseUrl\<lparr>RawQuery := Values_Encode params\<rparr>;
              w = log_INFO (url_String E baseUrl) w;
              ((response, err1), w) = http_Get E baseUrl w
          in (case err1 of
                Some e \<Rightarrow> Inr (([], err), log_Print e w)
              | None \<Rightarrow>
                  (case response of
                     None \<Rightarrow> Inl (NilDereference, w)
                   | Some r \<Rightarrow>
                       let (bodyText, err2) = io_ReadAll (Body r)
                       in (case err2 of
                             Some e \<Rightarrow> Inr (([], err), log_Print e w)
                           | None \<Rightarrow>
                               let v = strings_Split bodyText nl
                               in (case index v 1 of
                                     Inl a \<Rightarrow> Inl (a, w)
                                   | Inr v1 \<Rightarrow>
                                       let code = fst (strconv_Atoi v1)
                                       in if code = 0 then
                                            (case index v 2 of
                                               Inl a \<Rightarrow> Inl (a, w)
                                             | Inr v2 \<Rightarrow> Inr ((v2, None), w))
                                          else
                                            (case errorCodes code of
                                               Some message \<Rightarrow> Inr (([], err), log_Print message w)
                                             | None \<Rightarrow> Inr (([], err), w)))))))"

text \<open>
  \<open>PlaySeek\<close> and \<open>play\<close> of \<^verbatim>\<open>src/qvrpro.go\<close> read \<open>response.Body\<close>
  without looking at the error of \<open>client.Get\<close>; \<open>PlaySeek\<close> and \<open>Play\<close> of
  \<^verbatim>\<open>src/unnamed/part_000\<close> return the error first. The error of reading the
  body is dropped in all four.
\<close>

definition PlaySeek ::
  "env \<Rightarrow> Connection \<Rightarrow> string \<Rightarrow> int \<Rightarrow> world \<Rightarrow> (bool \<times> string option, world) outcome" where
  "PlaySeek E connection sessionId seekTime w =
     (case url_Parse E (url connection) of
        Inl e \<Rightarrow> Inr ((False, Some e), log_Println ''Malformed URL: '' e w)
      | Inr baseUrl \<Rightarrow>
          let baseUrl = baseUrl\<lparr>Path := qvrPlayPath\<rparr>;
              params = [];
              params = Values_Add params ''cmd'' ''seek'';
              params = Values_Add params ''sid'' (sid connection);
              params = Values_Add params ''ver'' apiPlayVersion;
              params = Values_Add params ''session'' sessionId;
              params = Values_Add params ''seek_time'' (strconv_Itoa seekTime);
              baseUrl = baseUrl\<lparr>RawQuery := Values_Encode params\<rparr>;
              w = log_INFO (url_String E baseUrl) w;
              ((response, err), w) = http_Get E baseUrl w
          in (case response of
                None \<Rightarrow> Inl (NilDereference, w)
              | Some r \<Rightarrow>
                  let (bodyText, err) = io_ReadAll (Body r);
                      v = strings_Split bodyText nl
                  in (case index v 1 of
                        Inl a \<Rightarrow> Inl (a, w)
                      | Inr v1 \<Rightarrow>
                          let code = fst (strconv_Atoi v1)
                          in if code \<noteq> 0 then
                               (case errorCodes code of
                                  Some message \<Rightarrow> Inr ((False, Some message), w)
                                | None \<Rightarrow> Inr ((code = 0, None), w))
                             else Inr ((code = 0, None), w))))"

definition PlaySeek_p0 ::
  "env \<Rightarrow> Connection \<Rightarrow> string \<Rightarrow> int \<Rightarrow> world \<Rightarrow> (bool \<times> string option, world) outcome" where
  "PlaySeek_p0 E connection sessionId seekTime w =
     (case url_Parse E (url connection) of
        Inl e \<Rightarrow> Inr ((False, Some e), log_Println ''Malformed URL: '' e w)
      | Inr baseUrl \<Rightarrow>
          let baseUrl = baseUrl\<lparr>Path := (PlayPath connection)\<rparr>;
              params = [];
              params = Values_Add params ''cmd'' ''seek'';
              params = Values_Add params ''sid'' (sid connection);
              params = Values_Add params ''ver'' apiPlayVersion;
              params = Values_Add params ''session'' sessionId;
              params = Values_Add params ''seek_time'' (strconv_Itoa seekTime);
              baseUrl = baseUrl\<lparr>RawQuery := Values_Encode params\<rparr>;
              w = log_INFO (url_String E baseUrl) w;
              ((response, err), w) = http_Get E baseUrl w
          in (case err of
                Some e \<Rightarrow> Inr ((False, Some e), w)
              | None \<Rightarrow>
             (case response of
                    None \<Rightarrow> Inl (NilDereference, w)
                  | Some r \<Rightarrow>
                      let (bodyText, err) = io_ReadAll (Body r);
                          v = strings_Split bodyText nl
                      in (case index v 1 of
                            Inl a \<Rightarrow> Inl (a, w)
                          | Inr v1 \<Rightarrow>
                              let code = fst (strconv_Atoi v1)
                              in if code \<noteq> 0 then
                                   (case errorCodes code of
                                      Some message \<Rightarrow> Inr ((False, Some message), w)
                                    | None \<Rightarrow> Inr ((code = 0, None), w))
                                 else Inr ((code = 0, None), w)))))"

definition play ::
  "env \<Rightarrow> Connection \<Rightarrow> string \<Rightarrow> world \<Rightarrow> (bool \<times> string option, world) outcome" where
  "play E connection sessionId w =
     (case url_Parse E (url connection) of
        Inl e \<Rightarrow> Inr ((False, Some e), log_Println ''Malformed URL: '' e w)
      | Inr baseUrl \<Rightarrow>
          let baseUrl = baseUrl\<lparr>Path := qvrPlayPath\<rparr>;
              params = [];
              params = Values_Add params ''cmd'' ''play'';
              params = Values_Add params ''sid'' (sid connection);
              params = Values_Add params ''ver'' apiPlayVersion;
              params = Values_Add params ''session'' sessionId;
              baseUrl = baseUrl\<lparr>RawQuery := Values_Encode params\<rparr>;
              w = log_INFO (url_String E baseUrl) w;
              ((response, err), w) = http_Get E baseUrl w
          in (case response of
                None \<Rightarrow> Inl (NilDereference, w)
              | Some r \<Rightarrow>
                  let (bodyText, err) = io_ReadAll (Body r);
                      v = strings_Split bodyText nl
                  in (case index v 1 of
                        Inl a \<Rightarrow> Inl (a, w)
                      | Inr v1 \<Rightarrow>
                          let code = fst (strconv_Atoi v1)
                          in if code \<noteq> 0 then
                               (case errorCodes code of
                                  Some message \<Rightarrow> Inr ((False, Some message), log_Print message w)
                                | None \<Rightarrow> Inr ((code = 0, None), w))
                             else Inr ((code = 0, None), w))))"

definition Play_p0 ::
  "env \<Rightarrow> Connection \<Rightarrow> string \<Rightarrow> world \<Rightarrow> (bool \<times> string option, world) outcome" where
  "Play_p0 E connection sessionId w =
     (case url_Parse E (url connection) of
        Inl e \<Rightarrow> Inr ((False, Some e), log_Println ''Malformed URL: '' e w)
      | Inr baseUrl \<Rightarrow>
          let baseUrl = baseUrl\<lparr>Path := (PlayPath connection)\<rparr>;
              params = [];
              params = Values_Add params ''cmd'' ''play'';
              params = Values_Add params ''sid'' (sid connection);
              params = Values_Add params ''ver'' apiPlayVersion;
              params = Values_Add params ''session'' sessionId;
              baseUrl = baseUrl\<lparr>RawQuery := Values_Encode params\<rparr>;
              w = log_INFO (url_String E baseUrl) w;
              ((response, err), w) = http_Get E baseUrl w
          in (case err of
                Some e \<Rightarrow> Inr ((False, Some e), w)
              | None \<Rightarrow>
             (case response of
                    None \<Rightarrow> Inl (NilDereference, w)
                  | Some r \<Rightarrow>
                      let (bodyText, err) = io_ReadAll (Body r);
                          v = strings_Split bodyText nl
                      in (case index v 1 of
                            Inl a \<Rightarrow> Inl (a, w)
                          | Inr v1 \<Rightarrow>
                              let code = fst (strconv_Atoi v1)
                              in if code \<noteq> 0 then
                                   (case errorCodes code of
                                      Some message \<Rightarrow> Inr ((False, Some message), log_Print message w)
                                    | None \<Rightarrow> Inr ((code = 0, None), w))
                                 else Inr ((code = 0, None), w)))))"

text \<open>
  \<open>PlayGet\<close> of \<^verbatim>\<open>src/qvrpro.go\<close> reads the body into a buffer of four
  bytes and prints what each \<open>Read\<close> returned; when a \<open>Read\<close> returns
  \<open>io.EOF\<close> it prints the bytes that came with it and returns true, at any
  other error it prints the error and calls \<open>os.Exit(1)\<close>.
\<close>

fun read_loop :: "string list \<Rightarrow> string \<Rightarrow> string option \<Rightarrow> world \<Rightarrow> (unit, world) outcome" where
  "read_loop [] last_piece rerr w =
     (case rerr of
        None \<Rightarrow> Inr ((), fmt_Println last_piece w)
      | Some e \<Rightarrow> Inl (Exit 1, fmt_Println e w))"
| "read_loop (piece # pieces) last_piece rerr w =
     read_loop pieces last_piece rerr (fmt_Println piece w)"

definition PlayGet :: "env \<Rightarrow> Connection \<Rightarrow> string \<Rightarrow> world \<Rightarrow> (bool, world) outcome" where
  "PlayGet E connection sessionId w =
     (case url_Parse E (url connection) of
        Inl e \<Rightarrow> Inr (False, log_Println ''Malformed URL: '' e w)
      | Inr baseUrl \<Rightarrow>
          let baseUrl = baseUrl\<lparr>Path := qvrPlayPath\<rparr>;
              params = [];
              params = Values_Add params ''cmd'' ''get'';
              params = Values_Add params ''sid'' (sid connection);
              params = Values_Add params ''ver'' apiPlayVersion;
              params = Values_Add params ''session'' sessionId;
              baseUrl = baseUrl\<lparr>RawQuery := Values_Encode params\<rparr>;
              w = log_INFO (url_String E baseUrl) w;
              ((response, err), w) = http_Get E baseUrl w
          in (case response of
                None \<Rightarrow> Inl (NilDereference, w)
              | Some r \<Rightarrow>
                  (case read_loop (reads (Body r)) (final (Body r)) (readErr (Body r)) w of
                     Inl a \<Rightarrow> Inl a
                   | Inr (u, w) \<Rightarrow> Inr (True, w))))"

text \<open>
  \<open>PlayGet\<close> of \<^verbatim>\<open>src/unnamed/part_000\<close> copies the headers of the response
  (\<open>writer.Header().Set(k, v[0])\<close>) and then the body (\<open>io.Copy\<close>) to the
  writer, and returns the error of the copy.
\<close>

fun copy_header :: "(string \<times> string list) list \<Rightarrow> world \<Rightarrow> (unit, world) outcome" where
  "copy_header [] w = Inr ((), w)"
| "copy_header ((k, v) # hs) w =
     (case index v 0 of
        Inl a \<Rightarrow> Inl (a, w)
      | Inr v0 \<Rightarrow> copy_header hs (w\<lparr>writer_header := AList.update k [v0] (writer_header w)\<rparr>))"

definition io_Copy :: "ReadCloser \<Rightarrow> world \<Rightarrow> (int \<times> string option) \<times> world" where
  "io_Copy body w =
     ((int (length (content body)), readErr body), w\<lparr>writer_body := writer_body w @ content body\<rparr>)"

definition PlayGet_p0 ::
  "env \<Rightarrow> Connection \<Rightarrow> string \<Rightarrow> int \<Rightarrow> world \<Rightarrow> (string option, world) outcome" where
  "PlayGet_p0 E connection sessionId dataType w =
     (case url_Parse E (url connection) of
        Inl e \<Rightarrow> Inr (Some e, log_Println ''Malformed URL: '' e w)
      | Inr baseUrl \<Rightarrow>
          let baseUrl = baseUrl\<lparr>Path := PlayPath connection\<rparr>;
              params = [];
              params = Values_Add params ''cmd'' ''get'';
              params = Values_Add params ''sid'' (sid connection);
              params = Values_Add params ''ver'' apiPlayVersion;
              params = Values_Add params ''session'' sessionId;
              params = Values_Add params ''data_type'' (strconv_Itoa dataType);
              baseUrl = baseUrl\<lparr>RawQuery := Values_Encode params\<rparr>;
              w = log_INFO (url_String E baseUrl) w;
              ((response, err), w) = http_Get E baseUrl w
          in (case err of
                Some e \<Rightarrow> Inr (Some e, w)
              | None \<Rightarrow>
                  (case response of
                     None \<Rightarrow> Inl (NilDereference, w)
                   | Some r \<Rightarrow>
                       (case copy_header (Header r) w of
                          Inl a \<Rightarrow> Inl a
                        | Inr (u, w) \<Rightarrow>
                            let ((written, err), w) = io_Copy (Body r) w;
                                w = log_INFO (''Bytes written '' @ strconv_Itoa written) w
                            in Inr (err, w)))))"

text \<open>The composed operations: \<open>Video\<close> (\<^verbatim>\<open>src/qvrpro.go\<close>) and \<open>PlayFrame\<close> (\<^verbatim>\<open>src/unnamed/part_000\<close>).\<close>

definition Not_Finished :: string where
  "Not_Finished = ''{'' @ [CHR 0x22] @ ''Not'' @ [CHR 0x22] @ '':'' @ [CHR 0x22] @ ''Finished'' @ [CHR 0x22] @ ''}''"

definition Video ::
  "env \<Rightarrow> Connection \<Rightarrow> string \<Rightarrow> int \<Rightarrow> world \<Rightarrow> (string option \<times> string option, world) outcome" where
  "Video E connection channelId seekTime w =
     (case CreateSessionId E connection channelId seekTime w of
        Inl a \<Rightarrow> Inl a
      | Inr ((sessionId, err), w) \<Rightarrow>
          if length sessionId = 0 then Inr ((None, err), w)
          else
            (case PlaySeek E connection sessionId seekTime w of
               Inl a \<Rightarrow> Inl a
             | Inr ((success, err), w) \<Rightarrow>
                 if \<not> success then Inr ((None, err), w)
                 else
                   (case play E connection sessionId w of
                      Inl a \<Rightarrow> Inl a
                    | Inr ((success, err), w) \<Rightarrow>
                        if \<not> success then Inr ((None, err), w)
                        else
                          (case PlayGet E connection sessionId w of
                             Inl a \<Rightarrow> Inl a
                           | Inr (success, w) \<Rightarrow>
                               if \<not> success then Inr ((None, Some ''unable to get play data''), w)
                               else Inr ((Some Not_Finished, None), w)))))"

definition PlayFrame_p0 ::
  "env \<Rightarrow> Connection \<Rightarrow> string \<Rightarrow> int \<Rightarrow> world \<Rightarrow> (string option, world) outcome" where
  "PlayFrame_p0 E connection channelId seekTime w =
     (case CreateSessionId_p0 E connection channelId seekTime w of
        Inl a \<Rightarrow> Inl a
      | Inr ((sessionId, err), w) \<Rightarrow>
          if length sessionId = 0 then Inr (err, w)
          else
            (case PlaySeek_p0 E connection sessionId seekTime w of
               Inl a \<Rightarrow> Inl a
             | Inr ((success, err), w) \<Rightarrow>
                 if \<not> success then Inr (err, w)
                 else
                   (case Play_p0 E connection sessionId w of
                      Inl a \<Rightarrow> Inl a
                    | Inr ((success, err), w) \<Rightarrow>
                        if \<not> success then Inr (err, w)
                        else PlayGet_p0 E connection sessionId DataTypeJPeg w)))"

section \<open>Logs\<close>

text \<open>
  \<open>Logs\<close> of \<^verbatim>\<open>src/qvrpro.go\<close>: \<open>logType\<close>, \<open>start\<close> and \<open>maxResults\<close> are
  \<open>uint\<close> (below \<open>2^64\<close>), converted with \<open>int(...)\<close>. The error of
  \<open>client.Get\<close> is not looked at before \<open>response.Body\<close> is read.
\<close>

definition Logs :: "env \<Rightarrow> Connection \<Rightarrow> nat \<Rightarrow> nat \<Rightarrow> nat \<Rightarrow> world \<Rightarrow> (LogEntry list, world) outcome" where
  "Logs E connection logType start maxResults w =
     (let qvrProLogEntry = []
      in case url_Parse E (url connection) of
           Inl e \<Rightarrow> Inr (qvrProLogEntry, w)
         | Inr baseUrl \<Rightarrow>
             let baseUrl = baseUrl\<lparr>Path := ''/qvrpro/logs/logs''\<rparr>;
                 params = [];
                 params = Values_Add params ''sid'' (sid connection);
                 params = (if AllLogType \<noteq> logType
                           then Values_Add params ''log_type'' (strconv_Itoa (int64 (int logType)))
                           else params);
                 params = Values_Add params ''start'' (strconv_Itoa (int64 (int start)));
                 params = Values_Add params ''max_results'' (strconv_Itoa (int64 (int maxResults)));
                 baseUrl = baseUrl\<lparr>RawQuery := Values_Encode params\<rparr>;
                 w = log_INFO (url_String E baseUrl) w;
                 ((response, err), w) = http_Get E baseUrl w
             in (case response of
                   None \<Rightarrow> Inl (NilDereference, w)
                 | Some r \<Rightarrow>
                     let (body, err) = io_ReadAll (Body r)
                     in (case json_Unmarshal E body of
                           Inl e \<Rightarrow> Inr (qvrProLogEntry, w)
                         | Inr qvrResponse \<Rightarrow> Inr (Items qvrResponse, w))))"

text \<open>
  \<open>Logs\<close> of \<^verbatim>\<open>src/unnamed/part_000\<close>: \<open>startTime\<close> is an \<open>int64\<close>,
  \<open>maxResults\<close> an \<open>int\<close>; \<open>start_time\<close> is sent when it is not 0; every
  entry returned gets the application of the connection.
\<close>

definition Logs_p0 :: "env \<Rightarrow> Connection \<Rightarrow> nat \<Rightarrow> int \<Rightarrow> int \<Rightarrow> world \<Rightarrow> (LogEntry list, world) outcome" where
  "Logs_p0 E connection logType startTime maxResults w =
     (let qvrProLogEntry = []
      in case url_Parse E (url connection) of
           Inl e \<Rightarrow> Inr (qvrProLogEntry, w)
         | Inr baseUrl \<Rightarrow>
             let baseUrl = baseUrl\<lparr>Path := LogsPath connection\<rparr>;
                 params = [];
                 params = Values_Add params ''sid'' (sid connection);
                 params = (if AllLogType \<noteq> logType
                           then Values_Add params ''log_type'' (strconv_Itoa (int64 (int logType)))
                           else params);
                 params = (if startTime \<noteq> 0
                           then Values_Add params ''start_time'' (strconv_Itoa startTime)
                           else params);
                 params = Values_Add params ''sort_field'' ''time'';
                 params = Values_Add params ''max_results'' (strconv_Itoa maxResults);
                 params = Values_Add params ''dir'' ''ASC'';
                 baseUrl = baseUrl\<lparr>RawQuery := Values_Encode params\<rparr>;
                 w = log_INFO (url_String E baseUrl) w;
                 ((response, err), w) = http_Get E baseUrl w
             in (case err of
                   Some e \<Rightarrow> Inr (qvrProLogEntry, w)
                 | None \<Rightarrow>
                     (case response of
                        None \<Rightarrow> Inl (NilDereference, w)
                      | Some r \<Rightarrow>
                          let (body, err) = io_ReadAll (Body r)
                          in (case json_Unmarshal E body of
                                Inl e \<Rightarrow> Inr (qvrProLogEntry, w)
                              | Inr qvrResponse \<Rightarrow>
                                  Inr (map (\<lambda>item. item\<lparr>Application := qvrApp connection\<rparr>)
                                         (Items qvrResponse), w)))))"

section \<open>Reading a request back\<close>

text \<open>
  \<open>(*URL).Query()\<close> parses \<open>RawQuery\<close> and drops the error; \<open>Values.Get\<close>
  is the first value of a key, or the empty string.
\<close>

definition URL_Query :: "URL \<Rightarrow> Values" where
  "URL_Query u = fst (ParseQuery (RawQuery u))"

definition Values_Get :: "Values \<Rightarrow> string \<Rightarrow> string" where
  "Values_Get v key = (case map_of v key of None \<Rightarrow> [] | Some vs \<Rightarrow> (case vs of [] \<Rightarrow> [] | x # xs \<Rightarrow> x))"

definition cmd_of :: "URL \<Rightarrow> string" where
  "cmd_of u = Values_Get (URL_Query u) ''cmd''"

section \<open>Properties of the query encoding\<close>

text \<open>
  What \<open>Values.Encode\<close> writes, \<open>ParseQuery\<close> reads back without error:
  the same keys with the same values in the same order. The facts below lead
  to \<open>Values_round_trip\<close>; the definitions among them only name parts of
  \<open>Values.Encode\<close> and \<open>ParseQuery\<close> for the proofs.
\<close>

lemma upperhex_cases: "n < 16 \<Longrightarrow> ishex (upperhex n) \<and> unhex (upperhex n) = n \<and>
   upperhex n \<noteq> CHR ''&'' \<and> upperhex n \<noteq> CHR ''='' \<and> upperhex n \<noteq> CHR '';''"
proof -
  assume "n < 16"
  then have "n \<in> set [0..<16]" by simp
  moreover have "\<forall>n \<in> set [0..<16]. ishex (upperhex n) \<and> unhex (upperhex n) = n \<and>
   upperhex n \<noteq> CHR ''&'' \<and> upperhex n \<noteq> CHR ''='' \<and> upperhex n \<noteq> CHR '';''"
    by code_simp
  ultimately show ?thesis by blast
qed

lemma char_nibbles: "char_of (((of_char c :: nat) div 16) * 16 + (of_char c :: nat) mod 16) = c"
  by simp

lemma of_char_div16: "(of_char c :: nat) div 16 < 16"
proof -
  have "(of_char c :: nat) < 256" by (rule nat_of_char_less_256)
  then show ?thesis by arith
qed

lemma shouldEscape_special:
  "shouldEscape (CHR ''%'')" "shouldEscape (CHR ''+'')" "shouldEscape (CHR ''&'')"
  "shouldEscape (CHR ''='')" "shouldEscape (CHR '';'')" "shouldEscape (CHR '' '')"
  by (simp_all add: shouldEscape_def is_alnum_def)

lemma QueryUnescape_escape_byte:
  "QueryUnescape (escape_byte c @ rest) =
     (case QueryUnescape rest of Inl e \<Rightarrow> Inl e | Inr r \<Rightarrow> Inr (c # r))"
proof (cases "c = CHR '' ''")
  case True
  then show ?thesis by (auto simp: escape_byte_def split: sum.splits)
next
  case sp: False
  show ?thesis
  proof (cases "shouldEscape c")
    case True
    have h: "(of_char c :: nat) div 16 < 16" "(of_char c :: nat) mod 16 < 16"
      using of_char_div16 by simp_all
    show ?thesis
      using sp True upperhex_cases[OF h(1)] upperhex_cases[OF h(2)]
      by (simp add: escape_byte_def char_nibbles split: sum.splits)
  next
    case False
    then have "c \<noteq> CHR ''%''" "c \<noteq> CHR ''+''"
      using shouldEscape_special by auto
    then show ?thesis
      using sp False by (simp add: escape_byte_def split: sum.splits)
  qed
qed

lemma QueryUnescape_QueryEscape: "QueryUnescape (QueryEscape s) = Inr s"
  by (induction s) (simp_all add: QueryEscape_def QueryUnescape_escape_byte)

lemma escape_byte_chars:
  "x \<in> set (escape_byte c) \<Longrightarrow> x \<noteq> CHR ''&'' \<and> x \<noteq> CHR ''='' \<and> x \<noteq> CHR '';''"
proof -
  assume x: "x \<in> set (escape_byte c)"
  have h: "(of_char c :: nat) div 16 < 16" "(of_char c :: nat) mod 16 < 16"
    using of_char_div16 by simp_all
  show ?thesis
    using x upperhex_cases[OF h(1)] upperhex_cases[OF h(2)] shouldEscape_special
    by (auto simp: escape_byte_def split: if_splits)
qed

lemma QueryEscape_chars:
  "x \<in> set (QueryEscape s) \<Longrightarrow> x \<noteq> CHR ''&'' \<and> x \<noteq> CHR ''='' \<and> x \<noteq> CHR '';''"
  by (auto simp: QueryEscape_def dest: escape_byte_chars)

lemma cut_before_append: "sep \<notin> set a \<Longrightarrow> cut_before (a @ sep # b) sep = a"
  by (induction a) (auto simp: cut_before_def)

lemma cut_after_append: "sep \<notin> set a \<Longrightarrow> cut_after (a @ sep # b) sep = b"
  by (induction a) (auto simp: cut_after_def)

lemma cut_before_none: "sep \<notin> set a \<Longrightarrow> cut_before a sep = a"
  by (induction a) (auto simp: cut_before_def)

lemma cut_after_none: "sep \<notin> set a \<Longrightarrow> cut_after a sep = []"
  by (induction a) (auto simp: cut_after_def)

definition encode_pair :: "string \<times> string \<Rightarrow> string" where
  "encode_pair p = QueryEscape (fst p) @ CHR ''='' # QueryEscape (snd p)"

lemma encode_pair_chars: "CHR ''&'' \<notin> set (encode_pair p)" "CHR '';'' \<notin> set (encode_pair p)"
  using QueryEscape_chars by (auto simp: encode_pair_def)

lemma encode_pair_key: "cut_before (encode_pair p) (CHR ''='') = QueryEscape (fst p)"
  unfolding encode_pair_def using QueryEscape_chars by (intro cut_before_append) auto

lemma encode_pair_val: "cut_after (encode_pair p) (CHR ''='') = QueryEscape (snd p)"
  unfolding encode_pair_def using QueryEscape_chars by (intro cut_after_append) auto

lemma encode_pair_nonempty: "encode_pair p \<noteq> []"
  by (simp add: encode_pair_def)

lemma parseQuery_last:
  "parseQuery m err (encode_pair p) = (Values_Add m (fst p) (snd p), err)"
proof -
  have a: "cut_before (encode_pair p) (CHR ''&'') = encode_pair p"
    by (rule cut_before_none) (rule encode_pair_chars)
  have b: "cut_after (encode_pair p) (CHR ''&'') = []"
    by (rule cut_after_none) (rule encode_pair_chars)
  have e: "parseQuery (Values_Add m (fst p) (snd p)) err [] = (Values_Add m (fst p) (snd p), err)"
    by (subst parseQuery.simps) simp
  show ?thesis
    by (subst parseQuery.simps)
       (simp add: Let_def a b e encode_pair_nonempty encode_pair_chars encode_pair_key
          encode_pair_val QueryUnescape_QueryEscape)
qed

lemma parseQuery_step:
  "parseQuery m err (encode_pair p @ CHR ''&'' # rest) =
     parseQuery (Values_Add m (fst p) (snd p)) err rest"
proof -
  have a: "cut_before (encode_pair p @ CHR ''&'' # rest) (CHR ''&'') = encode_pair p"
    by (rule cut_before_append) (rule encode_pair_chars)
  have b: "cut_after (encode_pair p @ CHR ''&'' # rest) (CHR ''&'') = rest"
    by (rule cut_after_append) (rule encode_pair_chars)
  show ?thesis
    by (subst parseQuery.simps)
       (simp add: Let_def a b encode_pair_nonempty encode_pair_chars encode_pair_key
          encode_pair_val QueryUnescape_QueryEscape)
qed

definition add_pair :: "string \<times> string \<Rightarrow> Values \<Rightarrow> Values" where
  "add_pair p m = Values_Add m (fst p) (snd p)"

lemma parseQuery_join:
  "parseQuery m err (join_amp (map encode_pair ps)) = (fold add_pair ps m, err)"
proof (induction ps arbitrary: m)
  case Nil
  show ?case by (subst parseQuery.simps) simp
next
  case (Cons p ps)
  show ?case
  proof (cases ps)
    case Nil
    then show ?thesis by (simp add: parseQuery_last add_pair_def)
  next
    case (Cons q qs)
    then show ?thesis
      using Cons.IH[of "Values_Add m (fst p) (snd p)"]
      by (simp add: parseQuery_step add_pair_def)
  qed
qed

definition values_of :: "Values \<Rightarrow> string \<Rightarrow> string list" where
  "values_of v k = (case map_of v k of None \<Rightarrow> [] | Some vs \<Rightarrow> vs)"

definition pairs_of :: "Values \<Rightarrow> string list \<Rightarrow> (string \<times> string) list" where
  "pairs_of v ks = concat (map (\<lambda>k. map (Pair k) (values_of v k)) ks)"

lemma Values_Encode_pairs:
  "Values_Encode v = join_amp (map encode_pair (pairs_of v (sort (map fst v))))"
  by (simp add: Values_Encode_def pairs_of_def encode_key_def[abs_def] values_of_def map_concat
      encode_pair_def[abs_def] comp_def)

lemma map_of_Values_Add:
  "map_of (Values_Add m k x) = (map_of m)(k \<mapsto> values_of m k @ [x])"
  by (simp add: Values_Add_def values_of_def update_conv')

lemma values_of_Values_Add:
  "values_of (Values_Add m k x) k' = (if k' = k then values_of m k @ [x] else values_of m k')"
  by (simp add: values_of_def map_of_Values_Add)

lemma values_of_fold_same:
  "values_of (fold add_pair (map (Pair k) xs) m) k' =
     (if k' = k then values_of m k @ xs else values_of m k')"
  by (induction xs arbitrary: m) (simp_all add: add_pair_def values_of_Values_Add)

lemma dom_fold_same:
  "dom (map_of (fold add_pair (map (Pair k) xs) m)) =
     (if xs = [] then dom (map_of m) else insert k (dom (map_of m)))"
  by (induction xs arbitrary: m) (auto simp: add_pair_def map_of_Values_Add)

lemma values_of_fold_pairs:
  "distinct ks \<Longrightarrow>
   values_of (fold add_pair (concat (map (\<lambda>k. map (Pair k) (f k)) ks)) m) k' =
     (if k' \<in> set ks then values_of m k' @ f k' else values_of m k')"
  by (induction ks arbitrary: m) (auto simp: values_of_fold_same)

lemma dom_fold_pairs:
  "dom (map_of (fold add_pair (concat (map (\<lambda>k. map (Pair k) (f k)) ks)) m)) =
     dom (map_of m) \<union> {k \<in> set ks. f k \<noteq> []}"
  by (induction ks arbitrary: m) (auto simp: dom_fold_same split: if_splits)

definition wf_Values :: "Values \<Rightarrow> bool" where
  "wf_Values v = (distinct (map fst v) \<and> (\<forall>p \<in> set v. snd p \<noteq> []))"

lemma ParseQuery_Values_Encode:
  "ParseQuery (Values_Encode v) = (fold add_pair (pairs_of v (sort (map fst v))) [], None)"
  by (simp add: ParseQuery_def Values_Encode_pairs parseQuery_join)

lemma wf_Values_values_of: "wf_Values v \<Longrightarrow> k \<in> fst ` set v \<Longrightarrow> values_of v k \<noteq> []"
proof -
  assume wf: "wf_Values v" and k: "k \<in> fst ` set v"
  then obtain vs where "map_of v k = Some vs"
    by (metis domD dom_map_of_conv_image_fst)
  moreover from this have "(k, vs) \<in> set v" by (rule map_of_SomeD)
  ultimately show ?thesis using wf by (auto simp: wf_Values_def values_of_def)
qed

lemma Values_round_trip:
  assumes wf: "wf_Values v"
  shows "map_of (fst (ParseQuery (Values_Encode v))) = map_of v"
proof (rule ext)
  fix k
  let ?ks = "sort (map fst v)"
  let ?R = "fold add_pair (pairs_of v ?ks) []"
  have d: "distinct ?ks" using wf by (simp add: wf_Values_def)
  have vals: "values_of ?R k = (if k \<in> set ?ks then values_of v k else [])"
    unfolding pairs_of_def using values_of_fold_pairs[OF d, of "values_of v" "[]" k]
    by (simp add: values_of_def)
  have doms: "dom (map_of ?R) = {k \<in> set ?ks. values_of v k \<noteq> []}"
    unfolding pairs_of_def using dom_fold_pairs[of "values_of v" ?ks "[]"] by simp
  show "map_of (fst (ParseQuery (Values_Encode v))) k = map_of v k"
  proof (cases "k \<in> fst ` set v")
    case True
    then have ne: "values_of v k \<noteq> []" using wf by (rule wf_Values_values_of[rotated])
    from True have "k \<in> dom (map_of ?R)" using ne doms by simp
    then obtain a where a: "map_of ?R k = Some a" by blast
    from True obtain b where b: "map_of v k = Some b"
      by (metis domD dom_map_of_conv_image_fst)
    from vals True a b have "a = b" by (simp add: values_of_def)
    with a b show ?thesis by (simp add: ParseQuery_Values_Encode)
  next
    case False
    then have "k \<notin> dom (map_of ?R)" using doms by simp
    then have a: "map_of ?R k = None" by blast
    from False have b: "map_of v k = None"
      by (simp add: map_of_eq_None_iff)
    from a b show ?thesis by (simp add: ParseQuery_Values_Encode)
  qed
qed





section \<open>Observing an outcome\<close>

text \<open>The state an outcome ends in, and what it returns or how it stops.\<close>

definition state_of :: "('a, 's) outcome \<Rightarrow> 's" where
  "state_of r = (case r of Inl (a, s) \<Rightarrow> s | Inr (x, s) \<Rightarrow> s)"

definition result_of :: "('a, 's) outcome \<Rightarrow> abort + 'a" where
  "result_of r = (case r of Inl (a, s) \<Rightarrow> Inl a | Inr (x, s) \<Rightarrow> Inr x)"

text \<open>The parameters \<open>Login\<close> adds, and the request it sends for a parsed base URL.\<close>

definition login_params :: "string \<Rightarrow> string \<Rightarrow> Values" where
  "login_params user password = [(''serviceKey'', [''1'']), (''pwd'', [password]), (''user'', [user])]"

definition login_request :: "URL \<Rightarrow> string \<Rightarrow> string \<Rightarrow> URL" where
  "login_request baseUrl user password =
     baseUrl\<lparr>Path := ''/cgi-bin/authLogin.cgi'', RawQuery := Values_Encode (login_params user password)\<rparr>"

section \<open>A mock server for concrete runs\<close>

text \<open>
  One base URL parses, every other text is refused the way \<open>url.Parse\<close>
  refuses \<open>":"\<close>; the clock starts at 1000 and advances by one with each reading.
\<close>

definition nas_url :: URL where
  "nas_url = \<lparr>Scheme = ''https'', Host = ''nas'', Path = [], RawQuery = [], Fragment = []\<rparr>"

definition mock_Parse :: "string \<Rightarrow> string + URL" where
  "mock_Parse s = (if s = ''https://nas'' then Inr nas_url else Inl ''missing protocol scheme'')"

definition mock_String :: "URL \<Rightarrow> string" where
  "mock_String u = Scheme u @ ''://'' @ Host u @ Path u @ ''?'' @ RawQuery u"

definition auth_ok_xml :: string where
  "auth_ok_xml = ''<QDocRoot><authPassed>1</authPassed><authSid>abc123</authSid></QDocRoot>''"

definition auth_rejected_xml :: string where
  "auth_rejected_xml = ''<QDocRoot><authPassed>0</authPassed></QDocRoot>''"

definition auth_ok_no_sid_xml :: string where
  "auth_ok_no_sid_xml = ''<QDocRoot><authPassed>1</authPassed></QDocRoot>''"

definition mock_xml :: "string \<Rightarrow> string + QDocRoot" where
  "mock_xml body =
     (if body = auth_ok_xml then Inr \<lparr>AuthPassed = 1, AuthSid = ''abc123''\<rparr>
      else if body = auth_rejected_xml then Inr \<lparr>AuthPassed = 0, AuthSid = []\<rparr>
      else if body = auth_ok_no_sid_xml then Inr \<lparr>AuthPassed = 1, AuthSid = []\<rparr>
      else Inl ''EOF'')"

text \<open>
  A body the way \<open>net/http\<close> delivers a response of known length to a
  buffer of four bytes: pieces of four bytes, the last piece together with
  \<open>io.EOF\<close>.
\<close>

function pieces4 :: "string \<Rightarrow> string list" where
  "pieces4 s = (if length s \<le> 4 then [s] else take 4 s # pieces4 (drop 4 s))"
  by pat_completeness auto
termination
  by (relation "measure length") auto

declare pieces4.simps [simp del]

definition http_body :: "string \<Rightarrow> ReadCloser" where
  "http_body s = \<lparr>reads = butlast (pieces4 s), final = last (pieces4 s), readErr = None\<rparr>"

definition serve :: "string \<Rightarrow> URL list \<Rightarrow> URL \<Rightarrow> Response option \<times> string option" where
  "serve body hist q = (Some \<lparr>Header = [], Body = http_body body\<rparr>, None)"

lemma concat_pieces4: "concat (pieces4 s) = s"
  by (induction s rule: pieces4.induct) (subst pieces4.simps, simp)

lemma pieces4_nonempty: "pieces4 s \<noteq> []"
  by (subst pieces4.simps) simp

lemma http_body_simps [simp]: "content (http_body s) = s" "readErr (http_body s) = None"
proof -
  have "concat (butlast (pieces4 s)) @ last (pieces4 s) = concat (butlast (pieces4 s) @ [last (pieces4 s)])"
    by simp
  also have "\<dots> = s"
    by (simp only: append_butlast_last_id [OF pieces4_nonempty] concat_pieces4)
  finally show "content (http_body s) = s"
    by (simp add: content_def http_body_def)
  show "readErr (http_body s) = None"
    by (simp add: http_body_def)
qed

definition refuse :: "URL list \<Rightarrow> URL \<Rightarrow> Response option \<times> string option" where
  "refuse hist q = (None, Some ''connection refused'')"

definition mock_env ::
  "(URL list \<Rightarrow> URL \<Rightarrow> Response option \<times> string option) \<Rightarrow> (string \<Rightarrow> string + LogsResponse) \<Rightarrow> env" where
  "mock_env server json =
     \<lparr>url_Parse = mock_Parse, url_String = mock_String, client_Get = server,
      xml_Unmarshal = mock_xml, json_Unmarshal = json,
      time_Now_Unix = (\<lambda>n. 1000 + int n)\<rparr>"

definition no_json :: "string \<Rightarrow> string + LogsResponse" where
  "no_json body = Inl ''unexpected end of JSON input''"

definition world0 :: world where
  "world0 = \<lparr>requests = [], logged = [], printed = [], clock = 0, writer_header = [], writer_body = []\<rparr>"

section \<open>Session reuse (C1)\<close>

lemma requests_log [simp]:
  "requests (log_Print m w) = requests w"
  "requests (log_Println a b w) = requests w"
  "requests (log_INFO m w) = requests w"
  "requests (fmt_Println m w) = requests w"
  by (simp_all add: log_Print_def log_Println_def log_INFO_def fmt_Println_def)

lemma state_of_simps [simp]: "state_of (Inl (a, s)) = s" "state_of (Inr (x, s)) = s"
  by (simp_all add: state_of_def)

lemma state_of_fail [simp]:
  "state_of (case r of Inl a \<Rightarrow> Inl a | Inr (u, s) \<Rightarrow> Inr (x, s)) = state_of r"
  by (auto simp: state_of_def split: sum.splits prod.splits)

lemma Logout_requests: "\<exists>qs. requests (snd (state_of (Logout E c w))) = requests w @ qs"
  by (auto simp: Logout_def state_of_def Let_def http_Get_def split: sum.splits option.splits prod.splits)

lemma Logout_p0_requests: "\<exists>qs. requests (snd (state_of (Logout_p0 E c w))) = requests w @ qs"
  by (auto simp: Logout_p0_def state_of_def Let_def http_Get_def split: sum.splits option.splits prod.splits)

lemma login_params_eq:
  "Values_Add (Values_Add (Values_Add [] ''serviceKey'' ''1'') ''pwd'' password) ''user'' user
     = login_params user password"
  by (simp add: Values_Add_def login_params_def)

lemma wf_login_params: "wf_Values (login_params user password)"
  by (simp add: wf_Values_def login_params_def)

lemma Logout_after:
  "requests w1 = requests w @ [q] \<Longrightarrow>
   \<exists>qs. requests (snd (state_of (Logout E c w1))) = requests w @ q # qs"
  using Logout_requests[of E c w1] by auto

lemma Logout_p0_after:
  "requests w1 = requests w @ [q] \<Longrightarrow>
   \<exists>qs. requests (snd (state_of (Logout_p0 E c w1))) = requests w @ q # qs"
  using Logout_p0_requests[of E c w1] by auto

lemma Login_valid:
  "sid c \<noteq> [] \<Longrightarrow> time_Now_Unix E (clock w) < expire c \<Longrightarrow>
   Login E c user password w = Inr (True, (c, w\<lparr>clock := Suc (clock w)\<rparr>))"
  by (simp add: Login_def time_Now_def)

lemma Login_p0_valid:
  "sid c \<noteq> [] \<Longrightarrow> time_Now_Unix E (clock w) < expire c \<Longrightarrow>
   Login_p0 E c user password w = Inr (True, (c, w\<lparr>clock := Suc (clock w)\<rparr>))"
  by (simp add: Login_p0_def time_Now_def)

lemma Login_fresh:
  assumes stale: "\<not> (sid c \<noteq> [] \<and> time_Now_Unix E (clock w) < expire c)"
      and parse: "url_Parse E (url c) = Inr u"
  shows "\<exists>qs. requests (snd (state_of (Login E c user password w))) =
            requests w @ login_request u user password # qs"
  using stale parse
  by (auto simp: Login_def time_Now_def Let_def http_Get_def login_params_eq login_request_def
        io_ReadAll_def
      split: option.splits sum.splits prod.splits if_splits intro!: Logout_after)

lemma Login_p0_fresh:
  assumes stale: "\<not> (sid c \<noteq> [] \<and> time_Now_Unix E (clock w) < expire c)"
      and parse: "url_Parse E (url c) = Inr u"
  shows "\<exists>qs. requests (snd (state_of (Login_p0 E c user password w))) =
            requests w @ login_request u user password # qs"
  using stale parse
  by (auto simp: Login_p0_def time_Now_def Let_def http_Get_def login_params_eq login_request_def
        io_ReadAll_def
      split: option.splits sum.splits prod.splits if_splits intro!: Logout_p0_after)

text \<open>
  C1, as amended. A connection whose session id is not empty and whose expiry
  is after the clock's reading: \<open>Login\<close> returns true, the session and the
  world are as before but for the one reading of the clock; no request is
  sent. Any other connection whose base URL parses: the next request
  \<open>Login\<close> sends is the login request with the credentials given.
\<close>

theorem Login_reuse_or_authenticate:
  "(sid c \<noteq> [] \<and> time_Now_Unix E (clock w) < expire c \<longrightarrow>
      Login E c user password w = Inr (True, (c, w\<lparr>clock := Suc (clock w)\<rparr>)) \<and>
      Login_p0 E c user password w = Inr (True, (c, w\<lparr>clock := Suc (clock w)\<rparr>)))
   \<and> (\<not> (sid c \<noteq> [] \<and> time_Now_Unix E (clock w) < expire c) \<and> url_Parse E (url c) = Inr u \<longrightarrow>
      (\<exists>qs. requests (snd (state_of (Login E c user password w))) =
              requests w @ login_request u user password # qs) \<and>
      (\<exists>qs. requests (snd (state_of (Login_p0 E c user password w))) =
              requests w @ login_request u user password # qs))"
proof (intro conjI impI)
  assume "sid c \<noteq> [] \<and> time_Now_Unix E (clock w) < expire c"
  then show "Login E c user password w = Inr (True, (c, w\<lparr>clock := Suc (clock w)\<rparr>))"
    and "Login_p0 E c user password w = Inr (True, (c, w\<lparr>clock := Suc (clock w)\<rparr>))"
    by (simp_all add: Login_valid Login_p0_valid)
next
  assume h: "\<not> (sid c \<noteq> [] \<and> time_Now_Unix E (clock w) < expire c) \<and> url_Parse E (url c) = Inr u"
  from h have stale: "\<not> (sid c \<noteq> [] \<and> time_Now_Unix E (clock w) < expire c)"
    and parse: "url_Parse E (url c) = Inr u" by simp_all
  show "\<exists>qs. requests (snd (state_of (Login E c user password w))) =
              requests w @ login_request u user password # qs"
    by (rule Login_fresh [OF stale parse])
  show "\<exists>qs. requests (snd (state_of (Login_p0 E c user password w))) =
              requests w @ login_request u user password # qs"
    by (rule Login_p0_fresh [OF stale parse])
qed

definition fresh_connection :: Connection where
  "fresh_connection = \<lparr>url = ''https://nas'', sid = ''abc123'', expire = 1060, timeout = 60, qvrApp = ''qvrpro''\<rparr>"

definition stale_connection :: Connection where
  "stale_connection = \<lparr>url = ''https://nas'', sid = ''abc123'', expire = 900, timeout = 60, qvrApp = ''qvrpro''\<rparr>"

theorem Login_reuse_or_authenticate_witness:
  "Login (mock_env (serve auth_ok_xml) no_json) fresh_connection ''admin'' ''secret'' world0 =
     Inr (True, (fresh_connection, world0\<lparr>clock := 1\<rparr>))
   \<and> Login_p0 (mock_env (serve auth_ok_xml) no_json) fresh_connection ''admin'' ''secret'' world0 =
     Inr (True, (fresh_connection, world0\<lparr>clock := 1\<rparr>))
   \<and> (\<exists>qs. requests (snd (state_of
          (Login (mock_env (serve auth_ok_xml) no_json) stale_connection ''admin'' ''secret'' world0))) =
        login_request nas_url ''admin'' ''secret'' # qs)
   \<and> (\<exists>qs. requests (snd (state_of
          (Login_p0 (mock_env (serve auth_ok_xml) no_json) stale_connection ''admin'' ''secret'' world0))) =
        login_request nas_url ''admin'' ''secret'' # qs)"
  using Login_reuse_or_authenticate [of fresh_connection "mock_env (serve auth_ok_xml) no_json" world0
      "''admin''" "''secret''" nas_url]
    Login_reuse_or_authenticate [of stale_connection "mock_env (serve auth_ok_xml) no_json" world0
      "''admin''" "''secret''" nas_url]
  by (simp add: fresh_connection_def stale_connection_def mock_env_def world0_def mock_Parse_def)

text \<open>
  C1 as stated fails where the base URL does not parse: the session id is
  empty, and \<open>Login\<close> returns false without sending any request.
\<close>

theorem Login_malformed_url_counterexample:
  "sid (Create '':'' ''qvrpro'' 60) = []
   \<and> result_of (Login (mock_env (serve auth_ok_xml) no_json) (Create '':'' ''qvrpro'' 60)
        ''admin'' ''secret'' world0) = Inr False
   \<and> requests (snd (state_of (Login (mock_env (serve auth_ok_xml) no_json) (Create '':'' ''qvrpro'' 60)
        ''admin'' ''secret'' world0))) = []
   \<and> result_of (Login_p0 (mock_env (serve auth_ok_xml) no_json) (Create '':'' ''qvrpro'' 60)
        ''admin'' ''secret'' world0) = Inr False
   \<and> requests (snd (state_of (Login_p0 (mock_env (serve auth_ok_xml) no_json) (Create '':'' ''qvrpro'' 60)
        ''admin'' ''secret'' world0))) = []"
  by (simp add: Login_def Login_p0_def Logout_def Logout_p0_def Create_def mock_env_def mock_Parse_def
      world0_def result_of_def Let_def)

section \<open>The requests of the playback steps\<close>

text \<open>
  The parameters each step adds, in the order of the \<open>params.Add\<close> calls, and
  the URL it requests for a parsed base URL. \<open>cmds_issued\<close> reads the
  \<open>cmd\<close> parameter back from every request an operation has added to the
  world it started in.
\<close>

definition open_params :: "Connection \<Rightarrow> string \<Rightarrow> int \<Rightarrow> Values" where
  "open_params connection channelId startTime =
     [(''cmd'', [''open'']), (''sid'', [sid connection]), (''ver'', [''v1'']),
      (''ch_sid'', [channelId]), (''start_time'', [strconv_Itoa startTime]),
      (''query_type'', [''0'']), (''recording_type'', [''0'']), (''stream'', [''0'']),
      (''data_type'', [''0''])]"

definition seek_params :: "Connection \<Rightarrow> string \<Rightarrow> int \<Rightarrow> Values" where
  "seek_params connection sessionId seekTime =
     [(''cmd'', [''seek'']), (''sid'', [sid connection]), (''ver'', [''v1'']),
      (''session'', [sessionId]), (''seek_time'', [strconv_Itoa seekTime])]"

definition play_params :: "Connection \<Rightarrow> string \<Rightarrow> Values" where
  "play_params connection sessionId =
     [(''cmd'', [''play'']), (''sid'', [sid connection]), (''ver'', [''v1'']),
      (''session'', [sessionId])]"

definition get_params :: "Connection \<Rightarrow> string \<Rightarrow> Values" where
  "get_params connection sessionId =
     [(''cmd'', [''get'']), (''sid'', [sid connection]), (''ver'', [''v1'']),
      (''session'', [sessionId])]"

definition get_params_p0 :: "Connection \<Rightarrow> string \<Rightarrow> int \<Rightarrow> Values" where
  "get_params_p0 connection sessionId dataType =
     [(''cmd'', [''get'']), (''sid'', [sid connection]), (''ver'', [''v1'']),
      (''session'', [sessionId]), (''data_type'', [strconv_Itoa dataType])]"

definition request :: "URL \<Rightarrow> string \<Rightarrow> Values \<Rightarrow> URL" where
  "request baseUrl path params = baseUrl\<lparr>Path := path, RawQuery := Values_Encode params\<rparr>"

lemma Values_Get_request:
  "wf_Values v \<Longrightarrow> Values_Get (URL_Query (request u p v)) key = Values_Get v key"
  by (simp add: Values_Get_def URL_Query_def request_def Values_round_trip)

lemma cmd_of_requests [simp]:
  "cmd_of (request u p (open_params c ch t)) = ''open''"
  "cmd_of (request u p (seek_params c s t)) = ''seek''"
  "cmd_of (request u p (play_params c s)) = ''play''"
  "cmd_of (request u p (get_params c s)) = ''get''"
  "cmd_of (request u p (get_params_p0 c s d)) = ''get''"
  by (simp_all add: cmd_of_def Values_Get_request wf_Values_def open_params_def seek_params_def
      play_params_def get_params_def get_params_p0_def)
     (simp_all add: Values_Get_def)

lemma params_eq:
  "Values_Add (Values_Add (Values_Add (Values_Add (Values_Add (Values_Add (Values_Add (Values_Add
     (Values_Add [] ''cmd'' ''open'') ''sid'' (sid c)) ''ver'' ''v1'') ''ch_sid'' ch)
     ''start_time'' (strconv_Itoa t)) ''query_type'' ''0'') ''recording_type'' ''0'') ''stream'' ''0'')
     ''data_type'' ''0'' = open_params c ch t"
  "Values_Add (Values_Add (Values_Add (Values_Add (Values_Add [] ''cmd'' ''seek'') ''sid'' (sid c))
     ''ver'' apiPlayVersion) ''session'' s) ''seek_time'' (strconv_Itoa t) = seek_params c s t"
  "Values_Add (Values_Add (Values_Add (Values_Add [] ''cmd'' ''play'') ''sid'' (sid c))
     ''ver'' apiPlayVersion) ''session'' s = play_params c s"
  "Values_Add (Values_Add (Values_Add (Values_Add [] ''cmd'' ''get'') ''sid'' (sid c))
     ''ver'' apiPlayVersion) ''session'' s = get_params c s"
  "Values_Add (Values_Add (Values_Add (Values_Add (Values_Add [] ''cmd'' ''get'') ''sid'' (sid c))
     ''ver'' apiPlayVersion) ''session'' s) ''data_type'' (strconv_Itoa d) = get_params_p0 c s d"
  "Values_Add (get_params c s) ''data_type'' (strconv_Itoa d) = get_params_p0 c s d"
  by (simp_all add: Values_Add_def open_params_def seek_params_def play_params_def get_params_def
      get_params_p0_def apiPlayVersion_def)

lemma result_of_simps [simp]: "result_of (Inl (a, s)) = Inl a" "result_of (Inr (x, s)) = Inr x"
  by (simp_all add: result_of_def)

lemma requests_read_loop: "requests (state_of (read_loop pieces last_piece rerr w)) = requests w"
  by (induction pieces arbitrary: w) (simp_all split: option.splits)

lemma requests_copy_header: "requests (state_of (copy_header hs w)) = requests w"
  by (induction hs w rule: copy_header.induct) (simp_all split: sum.splits)

lemmas step_defs = Let_def http_Get_def io_ReadAll_def request_def params_eq

lemma CreateSessionId_trace:
  "url_Parse E (url c) = Inr u \<Longrightarrow>
   requests (state_of (CreateSessionId E c ch t w)) =
     requests w @ [request u qvrPlayPath (open_params c ch t)]"
  by (simp add: CreateSessionId_def step_defs split: option.splits sum.splits prod.splits)

lemma CreateSessionId_p0_trace:
  "url_Parse E (url c) = Inr u \<Longrightarrow>
   requests (state_of (CreateSessionId_p0 E c ch t w)) =
     requests w @ [request u (PlayPath c) (open_params c ch t)]"
  by (simp add: CreateSessionId_p0_def step_defs split: option.splits sum.splits prod.splits)

lemma PlaySeek_trace:
  "url_Parse E (url c) = Inr u \<Longrightarrow>
   requests (state_of (PlaySeek E c s t w)) = requests w @ [request u qvrPlayPath (seek_params c s t)]"
  by (simp add: PlaySeek_def step_defs split: option.splits sum.splits prod.splits)

lemma PlaySeek_p0_trace:
  "url_Parse E (url c) = Inr u \<Longrightarrow>
   requests (state_of (PlaySeek_p0 E c s t w)) = requests w @ [request u (PlayPath c) (seek_params c s t)]"
  by (simp add: PlaySeek_p0_def step_defs split: option.splits sum.splits prod.splits)

lemma play_trace:
  "url_Parse E (url c) = Inr u \<Longrightarrow>
   requests (state_of (play E c s w)) = requests w @ [request u qvrPlayPath (play_params c s)]"
  by (simp add: play_def step_defs split: option.splits sum.splits prod.splits)

lemma Play_p0_trace:
  "url_Parse E (url c) = Inr u \<Longrightarrow>
   requests (state_of (Play_p0 E c s w)) = requests w @ [request u (PlayPath c) (play_params c s)]"
  by (simp add: Play_p0_def step_defs split: option.splits sum.splits prod.splits)

lemma state_of_case_outcome:
  "state_of (case r of Inl a \<Rightarrow> Inl a | Inr (x, s) \<Rightarrow> Inr (f x, s)) = state_of r"
  by (auto simp: state_of_def split: sum.splits prod.splits)

lemma PlayGet_trace:
  "url_Parse E (url c) = Inr u \<Longrightarrow>
   requests (state_of (PlayGet E c s w)) = requests w @ [request u qvrPlayPath (get_params c s)]"
  using requests_read_loop
  by (simp add: PlayGet_def step_defs state_of_case_outcome split: option.splits prod.splits)

lemma PlayGet_p0_trace:
  "url_Parse E (url c) = Inr u \<Longrightarrow>
   requests (state_of (PlayGet_p0 E c s d w)) = requests w @ [request u (PlayPath c) (get_params_p0 c s d)]"
proof -
  assume p: "url_Parse E (url c) = Inr u"
  have "requests (state_of (case copy_header hs w1 of
            Inl a \<Rightarrow> Inl a
          | Inr (u, w) \<Rightarrow>
              let ((written, err), w) = io_Copy b w;
                  w = log_INFO (''Bytes written '' @ strconv_Itoa written) w
              in Inr (err, w))) = requests w1" for b hs w1
    using requests_copy_header[of hs w1]
    by (cases "copy_header hs w1") (auto simp: io_Copy_def Let_def split: prod.splits)
  then show ?thesis
    using p by (simp add: PlayGet_p0_def step_defs split: option.splits prod.splits)
qed

definition cmds_issued :: "world \<Rightarrow> ('a, world) outcome \<Rightarrow> string list" where
  "cmds_issued w r = map cmd_of (drop (length (requests w)) (requests (state_of r)))"

lemma unparsed:
  assumes "url_Parse E (url c) = Inl e"
  shows "CreateSessionId E c ch t w = Inr (([], Some e), w)"
    and "CreateSessionId_p0 E c ch t w = Inr (([], Some e), w)"
  using assms by (simp_all add: CreateSessionId_def CreateSessionId_p0_def)

lemma PlayFrame_p0_unparsed:
  "url_Parse E (url c) = Inl e \<Longrightarrow> PlayFrame_p0 E c ch t w = Inr (Some e, w)"
  by (simp add: PlayFrame_p0_def unparsed)

lemma Video_unparsed:
  "url_Parse E (url c) = Inl e \<Longrightarrow> Video E c ch t w = Inr ((None, Some e), w)"
  by (simp add: Video_def unparsed)

lemma PlayFrame_p0_cases:
  assumes p: "url_Parse E (url c) = Inr u"
  shows
  "(case CreateSessionId_p0 E c ch t w of
     Inl a \<Rightarrow> cmds_issued w (PlayFrame_p0 E c ch t w) = [''open'']
   | Inr ((sessionId, e1), w1) \<Rightarrow>
       if sessionId = [] then
         cmds_issued w (PlayFrame_p0 E c ch t w) = [''open'']
       else
        (case PlaySeek_p0 E c sessionId t w1 of
           Inl a \<Rightarrow> cmds_issued w (PlayFrame_p0 E c ch t w) = [''open'', ''seek'']
         | Inr ((ok2, e2), w2) \<Rightarrow>
             if \<not> ok2 then
               cmds_issued w (PlayFrame_p0 E c ch t w) = [''open'', ''seek'']
             else
              (case Play_p0 E c sessionId w2 of
                 Inl a \<Rightarrow> cmds_issued w (PlayFrame_p0 E c ch t w) = [''open'', ''seek'', ''play'']
               | Inr ((ok3, e3), w3) \<Rightarrow>
                   if \<not> ok3 then
                     cmds_issued w (PlayFrame_p0 E c ch t w) = [''open'', ''seek'', ''play'']
                   else
                     cmds_issued w (PlayFrame_p0 E c ch t w) = [''open'', ''seek'', ''play'', ''get''])))"
proof (cases "CreateSessionId_p0 E c ch t w")
  case (Inl a)
  then show ?thesis
    using CreateSessionId_p0_trace[OF p, of ch t w]
    by (cases a) (simp add: PlayFrame_p0_def cmds_issued_def)
next
  case (Inr r)
  obtain sessionId e1 w1 where r: "r = ((sessionId, e1), w1)" by (metis prod.collapse)
  have t1: "requests w1 = requests w @ [request u (PlayPath c) (open_params c ch t)]"
    using CreateSessionId_p0_trace[OF p, of ch t w] Inr r by simp
  show ?thesis
  proof (cases "sessionId = []")
    case True
    then show ?thesis using Inr r t1 by (simp add: PlayFrame_p0_def cmds_issued_def)
  next
    case sid: False
    show ?thesis
    proof (cases "PlaySeek_p0 E c sessionId t w1")
      case (Inl a)
      then show ?thesis
        using PlaySeek_p0_trace[OF p, of sessionId t w1] Inr r t1 sid
        by (cases a) (simp add: PlayFrame_p0_def cmds_issued_def)
    next
      case seek: (Inr r2)
      obtain ok2 e2 w2 where r2: "r2 = ((ok2, e2), w2)" by (metis prod.collapse)
      have t2: "requests w2 = requests w1 @ [request u (PlayPath c) (seek_params c sessionId t)]"
        using PlaySeek_p0_trace[OF p, of sessionId t w1] seek r2 by simp
      show ?thesis
      proof (cases ok2)
        case False
        then show ?thesis
          using Inr r t1 sid seek r2 t2 by (simp add: PlayFrame_p0_def cmds_issued_def)
      next
        case ok2: True
        show ?thesis
        proof (cases "Play_p0 E c sessionId w2")
          case (Inl a)
          then show ?thesis
            using Play_p0_trace[OF p, of sessionId w2] Inr r t1 sid seek r2 t2 ok2
            by (cases a) (simp add: PlayFrame_p0_def cmds_issued_def)
        next
          case play: (Inr r3)
          obtain ok3 e3 w3 where r3: "r3 = ((ok3, e3), w3)" by (metis prod.collapse)
          have t3: "requests w3 = requests w2 @ [request u (PlayPath c) (play_params c sessionId)]"
            using Play_p0_trace[OF p, of sessionId w2] play r3 by simp
          show ?thesis
            using PlayGet_p0_trace[OF p, of sessionId DataTypeJPeg w3] Inr r t1 sid seek r2 t2 ok2 play r3 t3
            by (simp add: PlayFrame_p0_def cmds_issued_def)
        qed
      qed
    qed
  qed
qed

lemma Video_cases:
  assumes p: "url_Parse E (url c) = Inr u"
  shows
  "(case CreateSessionId E c ch t w of
     Inl a \<Rightarrow> cmds_issued w (Video E c ch t w) = [''open'']
   | Inr ((sessionId, e1), w1) \<Rightarrow>
       if sessionId = [] then
         cmds_issued w (Video E c ch t w) = [''open'']
       else
        (case PlaySeek E c sessionId t w1 of
           Inl a \<Rightarrow> cmds_issued w (Video E c ch t w) = [''open'', ''seek'']
         | Inr ((ok2, e2), w2) \<Rightarrow>
             if \<not> ok2 then
               cmds_issued w (Video E c ch t w) = [''open'', ''seek'']
             else
              (case play E c sessionId w2 of
                 Inl a \<Rightarrow> cmds_issued w (Video E c ch t w) = [''open'', ''seek'', ''play'']
               | Inr ((ok3, e3), w3) \<Rightarrow>
                   if \<not> ok3 then
                     cmds_issued w (Video E c ch t w) = [''open'', ''seek'', ''play'']
                   else
                     cmds_issued w (Video E c ch t w) = [''open'', ''seek'', ''play'', ''get''])))"
proof (cases "CreateSessionId E c ch t w")
  case (Inl a)
  then show ?thesis
    using CreateSessionId_trace[OF p, of ch t w]
    by (cases a) (simp add: Video_def cmds_issued_def)
next
  case (Inr r)
  obtain sessionId e1 w1 where r: "r = ((sessionId, e1), w1)" by (metis prod.collapse)
  have t1: "requests w1 = requests w @ [request u qvrPlayPath (open_params c ch t)]"
    using CreateSessionId_trace[OF p, of ch t w] Inr r by simp
  show ?thesis
  proof (cases "sessionId = []")
    case True
    then show ?thesis using Inr r t1 by (simp add: Video_def cmds_issued_def)
  next
    case sid: False
    show ?thesis
    proof (cases "PlaySeek E c sessionId t w1")
      case (Inl a)
      then show ?thesis
        using PlaySeek_trace[OF p, of sessionId t w1] Inr r t1 sid
        by (cases a) (simp add: Video_def cmds_issued_def)
    next
      case seek: (Inr r2)
      obtain ok2 e2 w2 where r2: "r2 = ((ok2, e2), w2)" by (metis prod.collapse)
      have t2: "requests w2 = requests w1 @ [request u qvrPlayPath (seek_params c sessionId t)]"
        using PlaySeek_trace[OF p, of sessionId t w1] seek r2 by simp
      show ?thesis
      proof (cases ok2)
        case False
        then show ?thesis
          using Inr r t1 sid seek r2 t2 by (simp add: Video_def cmds_issued_def)
      next
        case ok2: True
        show ?thesis
        proof (cases "play E c sessionId w2")
          case (Inl a)
          then show ?thesis
            using play_trace[OF p, of sessionId w2] Inr r t1 sid seek r2 t2 ok2
            by (cases a) (simp add: Video_def cmds_issued_def)
        next
          case play: (Inr r3)
          obtain ok3 e3 w3 where r3: "r3 = ((ok3, e3), w3)" by (metis prod.collapse)
          have t3: "requests w3 = requests w2 @ [request u qvrPlayPath (play_params c sessionId)]"
            using play_trace[OF p, of sessionId w2] play r3 by simp
          have t4: "requests (state_of (PlayGet E c sessionId w3)) =
                      requests w3 @ [request u qvrPlayPath (get_params c sessionId)]"
            by (rule PlayGet_trace[OF p])
          have v: "state_of (Video E c ch t w) = state_of (PlayGet E c sessionId w3)" if ok3
            using that Inr r sid seek r2 ok2 play r3
            by (auto simp: Video_def state_of_def split: sum.splits prod.splits)
          show ?thesis
          proof (cases ok3)
            case False
            then show ?thesis
              using Inr r t1 sid seek r2 t2 ok2 play r3 t3 by (simp add: Video_def cmds_issued_def)
          next
            case True
            then show ?thesis
              using v t4 Inr r t1 sid seek r2 t2 ok2 play r3 t3 by (simp add: cmds_issued_def)
          qed
        qed
      qed
    qed
  qed
qed

lemma PlayFrame_p0_in_order:
  "prefix (cmds_issued w (PlayFrame_p0 E c ch t w)) [''open'', ''seek'', ''play'', ''get'']
   \<and> (''seek'' \<in> set (cmds_issued w (PlayFrame_p0 E c ch t w)) \<longrightarrow>
        (\<exists>s e1 w1. CreateSessionId_p0 E c ch t w = Inr ((s, e1), w1) \<and> s \<noteq> []))
   \<and> (''play'' \<in> set (cmds_issued w (PlayFrame_p0 E c ch t w)) \<longrightarrow>
        (\<exists>s e1 w1 e2 w2. CreateSessionId_p0 E c ch t w = Inr ((s, e1), w1) \<and>
           PlaySeek_p0 E c s t w1 = Inr ((True, e2), w2)))
   \<and> (''get'' \<in> set (cmds_issued w (PlayFrame_p0 E c ch t w)) \<longrightarrow>
        (\<exists>s e1 w1 e2 w2 e3 w3. CreateSessionId_p0 E c ch t w = Inr ((s, e1), w1) \<and>
           PlaySeek_p0 E c s t w1 = Inr ((True, e2), w2) \<and>
           Play_p0 E c s w2 = Inr ((True, e3), w3)))
   \<and> (\<forall>e1 w1. CreateSessionId_p0 E c ch t w = Inr (([], e1), w1) \<longrightarrow>
        PlayFrame_p0 E c ch t w = Inr (e1, w1))
   \<and> (\<forall>s e1 w1 e2 w2. s \<noteq> [] \<and> CreateSessionId_p0 E c ch t w = Inr ((s, e1), w1) \<and>
        PlaySeek_p0 E c s t w1 = Inr ((False, e2), w2) \<longrightarrow>
        PlayFrame_p0 E c ch t w = Inr (e2, w2))
   \<and> (\<forall>s e1 w1 e2 w2 e3 w3. s \<noteq> [] \<and> CreateSessionId_p0 E c ch t w = Inr ((s, e1), w1) \<and>
        PlaySeek_p0 E c s t w1 = Inr ((True, e2), w2) \<and>
        Play_p0 E c s w2 = Inr ((False, e3), w3) \<longrightarrow>
        PlayFrame_p0 E c ch t w = Inr (e3, w3))"
proof (cases "url_Parse E (url c)")
  case (Inl e)
  then show ?thesis
    by (simp add: PlayFrame_p0_unparsed cmds_issued_def unparsed)
next
  case p: (Inr u)
  note tree = PlayFrame_p0_cases[OF p, where ch=ch and t=t and w=w]
  show ?thesis
  proof (cases "CreateSessionId_p0 E c ch t w")
    case (Inl a)
    from tree Inl have cm: "cmds_issued w (PlayFrame_p0 E c ch t w) = [''open'']"
      by simp
    show ?thesis unfolding cm using Inl by simp
  next
    case (Inr r)
    obtain sessionId e1 w1 where r: "r = ((sessionId, e1), w1)" by (metis prod.collapse)
    note c1 = Inr[unfolded r]
    show ?thesis
    proof (cases "sessionId = []")
      case True
      from tree c1 True have cm: "cmds_issued w (PlayFrame_p0 E c ch t w) = [''open'']"
        by simp
      from c1 True have op: "PlayFrame_p0 E c ch t w = Inr (e1, w1)"
        by (simp add: PlayFrame_p0_def)
      show ?thesis unfolding cm using op c1 True by simp
    next
      case sid: False
      show ?thesis
      proof (cases "PlaySeek_p0 E c sessionId t w1")
        case (Inl a)
        from tree c1 sid Inl have cm: "cmds_issued w (PlayFrame_p0 E c ch t w) = [''open'', ''seek'']"
          by simp
        show ?thesis unfolding cm using c1 sid Inl by simp
      next
        case seek: (Inr r2)
        obtain ok2 e2 w2 where r2: "r2 = ((ok2, e2), w2)" by (metis prod.collapse)
        note c2 = seek[unfolded r2]
        show ?thesis
        proof (cases ok2)
          case False
          from tree c1 sid c2 False have cm: "cmds_issued w (PlayFrame_p0 E c ch t w) = [''open'', ''seek'']"
            by simp
          from c1 sid c2 False have op: "PlayFrame_p0 E c ch t w = Inr (e2, w2)"
            by (simp add: PlayFrame_p0_def)
          show ?thesis unfolding cm using op c1 sid c2 False by simp
        next
          case ok2: True
          show ?thesis
          proof (cases "Play_p0 E c sessionId w2")
            case (Inl a)
            from tree c1 sid c2 ok2 Inl
            have cm: "cmds_issued w (PlayFrame_p0 E c ch t w) = [''open'', ''seek'', ''play'']"
              by simp
            show ?thesis unfolding cm using c1 sid c2 ok2 Inl by simp
          next
            case play: (Inr r3)
            obtain ok3 e3 w3 where r3: "r3 = ((ok3, e3), w3)" by (metis prod.collapse)
            note c3 = play[unfolded r3]
            show ?thesis
            proof (cases ok3)
              case False
              from tree c1 sid c2 ok2 c3 False
              have cm: "cmds_issued w (PlayFrame_p0 E c ch t w) = [''open'', ''seek'', ''play'']"
                by simp
              from c1 sid c2 ok2 c3 False have op: "PlayFrame_p0 E c ch t w = Inr (e3, w3)"
                by (simp add: PlayFrame_p0_def)
              show ?thesis unfolding cm using op c1 sid c2 ok2 c3 False by simp
            next
              case True
              from tree c1 sid c2 ok2 c3 True
              have cm: "cmds_issued w (PlayFrame_p0 E c ch t w) = [''open'', ''seek'', ''play'', ''get'']"
                by simp
              show ?thesis unfolding cm using c1 sid c2 ok2 c3 True by simp
            qed
          qed
        qed
      qed
    qed
  qed
qed

lemma Video_in_order:
  "prefix (cmds_issued w (Video E c ch t w)) [''open'', ''seek'', ''play'', ''get'']
   \<and> (''seek'' \<in> set (cmds_issued w (Video E c ch t w)) \<longrightarrow>
        (\<exists>s e1 w1. CreateSessionId E c ch t w = Inr ((s, e1), w1) \<and> s \<noteq> []))
   \<and> (''play'' \<in> set (cmds_issued w (Video E c ch t w)) \<longrightarrow>
        (\<exists>s e1 w1 e2 w2. CreateSessionId E c ch t w = Inr ((s, e1), w1) \<and>
           PlaySeek E c s t w1 = Inr ((True, e2), w2)))
   \<and> (''get'' \<in> set (cmds_issued w (Video E c ch t w)) \<longrightarrow>
        (\<exists>s e1 w1 e2 w2 e3 w3. CreateSessionId E c ch t w = Inr ((s, e1), w1) \<and>
           PlaySeek E c s t w1 = Inr ((True, e2), w2) \<and>
           play E c s w2 = Inr ((True, e3), w3)))
   \<and> (\<forall>e1 w1. CreateSessionId E c ch t w = Inr (([], e1), w1) \<longrightarrow>
        Video E c ch t w = Inr ((None, e1), w1))
   \<and> (\<forall>s e1 w1 e2 w2. s \<noteq> [] \<and> CreateSessionId E c ch t w = Inr ((s, e1), w1) \<and>
        PlaySeek E c s t w1 = Inr ((False, e2), w2) \<longrightarrow>
        Video E c ch t w = Inr ((None, e2), w2))
   \<and> (\<forall>s e1 w1 e2 w2 e3 w3. s \<noteq> [] \<and> CreateSessionId E c ch t w = Inr ((s, e1), w1) \<and>
        PlaySeek E c s t w1 = Inr ((True, e2), w2) \<and>
        play E c s w2 = Inr ((False, e3), w3) \<longrightarrow>
        Video E c ch t w = Inr ((None, e3), w3))"
proof (cases "url_Parse E (url c)")
  case (Inl e)
  then show ?thesis
    by (simp add: Video_unparsed cmds_issued_def unparsed)
next
  case p: (Inr u)
  note tree = Video_cases[OF p, where ch=ch and t=t and w=w]
  show ?thesis
  proof (cases "CreateSessionId E c ch t w")
    case (Inl a)
    from tree Inl have cm: "cmds_issued w (Video E c ch t w) = [''open'']"
      by simp
    show ?thesis unfolding cm using Inl by simp
  next
    case (Inr r)
    obtain sessionId e1 w1 where r: "r = ((sessionId, e1), w1)" by (metis prod.collapse)
    note c1 = Inr[unfolded r]
    show ?thesis
    proof (cases "sessionId = []")
      case True
      from tree c1 True have cm: "cmds_issued w (Video E c ch t w) = [''open'']"
        by simp
      from c1 True have op: "Video E c ch t w = Inr ((None, e1), w1)"
        by (simp add: Video_def)
      show ?thesis unfolding cm using op c1 True by simp
    next
      case sid: False
      show ?thesis
      proof (cases "PlaySeek E c sessionId t w1")
        case (Inl a)
        from tree c1 sid Inl have cm: "cmds_issued w (Video E c ch t w) = [''open'', ''seek'']"
          by simp
        show ?thesis unfolding cm using c1 sid Inl by simp
      next
        case seek: (Inr r2)
        obtain ok2 e2 w2 where r2: "r2 = ((ok2, e2), w2)" by (metis prod.collapse)
        note c2 = seek[unfolded r2]
        show ?thesis
        proof (cases ok2)
          case False
          from tree c1 sid c2 False have cm: "cmds_issued w (Video E c ch t w) = [''open'', ''seek'']"
            by simp
          from c1 sid c2 False have op: "Video E c ch t w = Inr ((None, e2), w2)"
            by (simp add: Video_def)
          show ?thesis unfolding cm using op c1 sid c2 False by simp
        next
          case ok2: True
          show ?thesis
          proof (cases "play E c sessionId w2")
            case (Inl a)
            from tree c1 sid c2 ok2 Inl
            have cm: "cmds_issued w (Video E c ch t w) = [''open'', ''seek'', ''play'']"
              by simp
            show ?thesis unfolding cm using c1 sid c2 ok2 Inl by simp
          next
            case play: (Inr r3)
            obtain ok3 e3 w3 where r3: "r3 = ((ok3, e3), w3)" by (metis prod.collapse)
            note c3 = play[unfolded r3]
            show ?thesis
            proof (cases ok3)
              case False
              from tree c1 sid c2 ok2 c3 False
              have cm: "cmds_issued w (Video E c ch t w) = [''open'', ''seek'', ''play'']"
                by simp
              from c1 sid c2 ok2 c3 False have op: "Video E c ch t w = Inr ((None, e3), w3)"
                by (simp add: Video_def)
              show ?thesis unfolding cm using op c1 sid c2 ok2 c3 False by simp
            next
              case True
              from tree c1 sid c2 ok2 c3 True
              have cm: "cmds_issued w (Video E c ch t w) = [''open'', ''seek'', ''play'', ''get'']"
                by simp
              show ?thesis unfolding cm using c1 sid c2 ok2 c3 True by simp
            qed
          qed
        qed
      qed
    qed
  qed
qed

section \<open>The status line of a playback response\<close>

text \<open>
  What the three parsing steps return for a response, as a function of the
  lines of its body: line 1 holds the status code, line 2 the session id.
\<close>

definition status_lines :: "Response \<Rightarrow> string list" where
  "status_lines r = strings_Split (content (Body r)) nl"

definition status_code :: "Response \<Rightarrow> int" where
  "status_code r = fst (strconv_Atoi (status_lines r ! 1))"

lemma strings_Split_nonempty: "strings_Split s sep \<noteq> []"
  by (induction s) (auto split: list.splits)

lemma strings_Split_no_sep: "sep \<notin> set s \<Longrightarrow> strings_Split s sep = [s]"
  by (induction s) auto

lemma open_result:
  assumes "url_Parse E (url c) = Inr u"
      and "readErr (Body r) = None"
  shows "client_Get E (requests w) (request u qvrPlayPath (open_params c ch t)) = (Some r, None) \<Longrightarrow>
         result_of (CreateSessionId E c ch t w) =
           (if length (status_lines r) < 2 then Inl (IndexOutOfRange 1 (length (status_lines r)))
            else if status_code r \<noteq> 0 then Inr ([], None)
            else if length (status_lines r) < 3 then Inl (IndexOutOfRange 2 (length (status_lines r)))
            else Inr (status_lines r ! 2, None))"
    and "client_Get E (requests w) (request u (PlayPath c) (open_params c ch t)) = (Some r, None) \<Longrightarrow>
         result_of (CreateSessionId_p0 E c ch t w) =
           (if length (status_lines r) < 2 then Inl (IndexOutOfRange 1 (length (status_lines r)))
            else if status_code r \<noteq> 0 then Inr ([], None)
            else if length (status_lines r) < 3 then Inl (IndexOutOfRange 2 (length (status_lines r)))
            else Inr (status_lines r ! 2, None))"
  using assms
  by (auto simp: CreateSessionId_def CreateSessionId_p0_def step_defs status_lines_def status_code_def
      index_def split: option.splits)

definition step_result :: "Response \<Rightarrow> abort + bool \<times> string option" where
  "step_result r =
     (if length (status_lines r) < 2 then Inl (IndexOutOfRange 1 (length (status_lines r)))
      else if status_code r = 0 then Inr (True, None)
      else Inr (False, errorCodes (status_code r)))"

lemma seek_result:
  assumes "url_Parse E (url c) = Inr u"
  shows "client_Get E (requests w) (request u qvrPlayPath (seek_params c s t)) = (Some r, err) \<Longrightarrow>
         result_of (PlaySeek E c s t w) = step_result r"
    and "client_Get E (requests w) (request u (PlayPath c) (seek_params c s t)) = (Some r, None) \<Longrightarrow>
         result_of (PlaySeek_p0 E c s t w) = step_result r"
  using assms
  by (auto simp: PlaySeek_def PlaySeek_p0_def step_defs status_lines_def status_code_def
      index_def step_result_def split: option.splits)

lemma play_result:
  assumes "url_Parse E (url c) = Inr u"
  shows "client_Get E (requests w) (request u qvrPlayPath (play_params c s)) = (Some r, err) \<Longrightarrow>
         result_of (play E c s w) = step_result r"
    and "client_Get E (requests w) (request u (PlayPath c) (play_params c s)) = (Some r, None) \<Longrightarrow>
         result_of (Play_p0 E c s w) = step_result r"
  using assms
  by (auto simp: play_def Play_p0_def step_defs status_lines_def status_code_def
      index_def step_result_def split: option.splits)

text \<open>
  The keys of \<open>errorCodes\<close> as numbers: every code of the table is above
  \<open>0x7fffffff\<close>, so each key is negative once \<open>hexToInt\<close> has narrowed it
  to a C \<open>int\<close>.
\<close>

lemma convertHexToInt_keys:
  "convertHexToInt ''0x93010002'' = - 1828651006"
  "convertHexToInt ''0x93010006'' = - 1828651002"
  "convertHexToInt ''0x93010007'' = - 1828651001"
  "convertHexToInt ''0x93010102'' = - 1828650750"
  "convertHexToInt ''0x93010103'' = - 1828650749"
  "convertHexToInt ''0x93010104'' = - 1828650748"
  "convertHexToInt ''0x93010107'' = - 1828650745"
  "convertHexToInt ''0x93010108'' = - 1828650744"
  "convertHexToInt ''0x93010109'' = - 1828650743"
  "convertHexToInt ''0x9301010B'' = - 1828650741"
  "convertHexToInt ''0x93010201'' = - 1828650495"
  "convertHexToInt ''0x93010202'' = - 1828650494"
  "convertHexToInt ''0x93010203'' = - 1828650493"
  "convertHexToInt ''0x93010204'' = - 1828650492"
  "convertHexToInt ''0x93010003'' = - 1828651005"
  "convertHexToInt ''0x93010004'' = - 1828651004"
  "convertHexToInt ''0x93000000'' = - 1828716544"
  "convertHexToInt ''0x93000001'' = - 1828716543"
  "convertHexToInt ''0x93000002'' = - 1828716542"
  "convertHexToInt ''0x93000003'' = - 1828716541"
  "convertHexToInt ''0x93000004'' = - 1828716540"
  "convertHexToInt ''0x93000005'' = - 1828716539"
  by code_simp+

lemma errorCodes_keys [code]:
  "errorCodes = Map.empty
     (- 1828651006 \<mapsto> ''failed to open play session'',
      - 1828651002 \<mapsto> ''sid authentication failed'',
      - 1828651001 \<mapsto> ''failed to open session (session num full)'',
      - 1828650750 \<mapsto> ''start_time, end_time or time_val not specified'',
      - 1828650749 \<mapsto> ''channel_id not specified'',
      - 1828650748 \<mapsto> ''session_id not specified'',
      - 1828650745 \<mapsto> ''seek_time not specified'',
      - 1828650744 \<mapsto> ''session_id too long'',
      - 1828650743 \<mapsto> ''speed_num not specified'',
      - 1828650741 \<mapsto> ''enable not specified'',
      - 1828650495 \<mapsto> ''failed to control stream'',
      - 1828650494 \<mapsto> ''session not found'',
      - 1828650493 \<mapsto> ''session is being closed'',
      - 1828650492 \<mapsto> ''no files found'',
      - 1828651005 \<mapsto> ''cmd is illegal'',
      - 1828651004 \<mapsto> ''insufficient memory'',
      - 1828716544 \<mapsto> ''Illegal Args'',
      - 1828716543 \<mapsto> ''Rejected Connection (DDOS)'',
      - 1828716542 \<mapsto> ''Exceeded Max Connection number'',
      - 1828716541 \<mapsto> ''Stream not ready'',
      - 1828716540 \<mapsto> ''Failed to start the stream'',
      - 1828716539 \<mapsto> ''Auth failed'')"
  by (simp only: errorCodes_def convertHexToInt_keys)

section \<open>The open step on a mocked response (C4)\<close>

definition session_body :: string where
  "session_body = ''header'' @ [nl] @ ''0'' @ [nl] @ ''SESSION123'' @ [nl]"

lemma status_lines_session_body:
  "content (Body r) = ''header'' @ [nl] @ ''0'' @ [nl] @ ''SESSION123'' @ [nl] \<Longrightarrow>
   status_lines r = [''header'', ''0'', ''SESSION123'', []]"
  by (simp add: status_lines_def nl_def)

lemma Atoi_0: "strconv_Atoi ''0'' = (0, None)"
  by (simp add: strconv_Atoi_def strconv_ParseUint_def is_digit_def digit_val_def)

text \<open>
  C4. The base URL parses, the open request is answered without error and the
  body read is \<open>"header\n0\nSESSION123\n"\<close>: \<open>CreateSessionId\<close> (either
  version) returns \<open>"SESSION123"\<close> and a nil error.
\<close>

theorem CreateSessionId_returns_session_id:
  "url_Parse E (url c) = Inr u \<and>
   content (Body r) = ''header'' @ [nl] @ ''0'' @ [nl] @ ''SESSION123'' @ [nl] \<and>
   readErr (Body r) = None \<longrightarrow>
     (client_Get E (requests w) (request u qvrPlayPath (open_params c ch t)) = (Some r, None) \<longrightarrow>
        result_of (CreateSessionId E c ch t w) = Inr (''SESSION123'', None))
   \<and> (client_Get E (requests w) (request u (PlayPath c) (open_params c ch t)) = (Some r, None) \<longrightarrow>
        result_of (CreateSessionId_p0 E c ch t w) = Inr (''SESSION123'', None))"
proof (intro impI conjI)
  assume h: "url_Parse E (url c) = Inr u \<and>
   content (Body r) = ''header'' @ [nl] @ ''0'' @ [nl] @ ''SESSION123'' @ [nl] \<and>
   readErr (Body r) = None"
  then have p: "url_Parse E (url c) = Inr u" and e: "readErr (Body r) = None"
    and l: "status_lines r = [''header'', ''0'', ''SESSION123'', []]"
    by (simp_all add: status_lines_session_body)
  from l have code: "status_code r = 0" by (simp add: status_code_def Atoi_0)
  {
    assume "client_Get E (requests w) (request u qvrPlayPath (open_params c ch t)) = (Some r, None)"
    then show "result_of (CreateSessionId E c ch t w) = Inr (''SESSION123'', None)"
      using open_result(1)[OF p e] l code by simp
  }
  {
    assume "client_Get E (requests w) (request u (PlayPath c) (open_params c ch t)) = (Some r, None)"
    then show "result_of (CreateSessionId_p0 E c ch t w) = Inr (''SESSION123'', None)"
      using open_result(2)[OF p e] l code by simp
  }
qed

theorem CreateSessionId_returns_session_id_witness:
  "result_of (CreateSessionId (mock_env (serve session_body) no_json) stale_connection ''ch1'' 5 world0)
     = Inr (''SESSION123'', None)
   \<and> result_of (CreateSessionId_p0 (mock_env (serve session_body) no_json) stale_connection ''ch1'' 5 world0)
     = Inr (''SESSION123'', None)"
  using CreateSessionId_returns_session_id [of "mock_env (serve session_body) no_json" stale_connection
      nas_url "\<lparr>Header = [], Body = http_body session_body\<rparr>" world0 "''ch1''" 5]
  by (simp add: mock_env_def mock_Parse_def stale_connection_def serve_def session_body_def)

section \<open>Bodies without a second line (C10)\<close>

lemma status_lines_no_newline: "nl \<notin> set (content (Body r)) \<Longrightarrow> status_lines r = [content (Body r)]"
  by (simp add: status_lines_def strings_Split_no_sep)

text \<open>
  C10. The base URL parses and a playback step (open, seek, play; either
  version) gets a response. If its body contains no newline, the step stops
  with the panic \<open>index out of range [1] with length 1\<close>. If the step
  returns normally, the body has at least two lines, and for the open step
  with status 0 at least three.
\<close>

theorem status_line_index_out_of_range:
  assumes p: "url_Parse E (url c) = Inr u"
  shows
  "(nl \<notin> set (content (Body r)) \<longrightarrow>
      (client_Get E (requests w) (request u qvrPlayPath (open_params c ch t)) = (Some r, None) \<and>
       readErr (Body r) = None \<longrightarrow>
         result_of (CreateSessionId E c ch t w) = Inl (IndexOutOfRange 1 1))
    \<and> (client_Get E (requests w) (request u (PlayPath c) (open_params c ch t)) = (Some r, None) \<and>
       readErr (Body r) = None \<longrightarrow>
         result_of (CreateSessionId_p0 E c ch t w) = Inl (IndexOutOfRange 1 1))
    \<and> (client_Get E (requests w) (request u qvrPlayPath (seek_params c s t)) = (Some r, err) \<longrightarrow>
         result_of (PlaySeek E c s t w) = Inl (IndexOutOfRange 1 1))
    \<and> (client_Get E (requests w) (request u (PlayPath c) (seek_params c s t)) = (Some r, None) \<longrightarrow>
         result_of (PlaySeek_p0 E c s t w) = Inl (IndexOutOfRange 1 1))
    \<and> (client_Get E (requests w) (request u qvrPlayPath (play_params c s)) = (Some r, err) \<longrightarrow>
         result_of (play E c s w) = Inl (IndexOutOfRange 1 1))
    \<and> (client_Get E (requests w) (request u (PlayPath c) (play_params c s)) = (Some r, None) \<longrightarrow>
         result_of (Play_p0 E c s w) = Inl (IndexOutOfRange 1 1)))
   \<and> (client_Get E (requests w) (request u qvrPlayPath (open_params c ch t)) = (Some r, None) \<and>
       readErr (Body r) = None \<and> result_of (CreateSessionId E c ch t w) = Inr x \<longrightarrow>
         2 \<le> length (status_lines r) \<and> (status_code r = 0 \<longrightarrow> 3 \<le> length (status_lines r)))
   \<and> (client_Get E (requests w) (request u (PlayPath c) (open_params c ch t)) = (Some r, None) \<and>
       readErr (Body r) = None \<and> result_of (CreateSessionId_p0 E c ch t w) = Inr x \<longrightarrow>
         2 \<le> length (status_lines r) \<and> (status_code r = 0 \<longrightarrow> 3 \<le> length (status_lines r)))
   \<and> (client_Get E (requests w) (request u qvrPlayPath (seek_params c s t)) = (Some r, err) \<and>
       result_of (PlaySeek E c s t w) = Inr y \<longrightarrow> 2 \<le> length (status_lines r))
   \<and> (client_Get E (requests w) (request u (PlayPath c) (seek_params c s t)) = (Some r, None) \<and>
       result_of (PlaySeek_p0 E c s t w) = Inr y \<longrightarrow> 2 \<le> length (status_lines r))
   \<and> (client_Get E (requests w) (request u qvrPlayPath (play_params c s)) = (Some r, err) \<and>
       result_of (play E c s w) = Inr y \<longrightarrow> 2 \<le> length (status_lines r))
   \<and> (client_Get E (requests w) (request u (PlayPath c) (play_params c s)) = (Some r, None) \<and>
       result_of (Play_p0 E c s w) = Inr y \<longrightarrow> 2 \<le> length (status_lines r))"
  using open_result[OF p, of r w ch t] seek_result[OF p, of w s t r] play_result[OF p, of w s r]
    status_lines_no_newline[of r]
  by (auto simp: step_result_def split: if_splits)

lemma outcome_eq: "result_of r = Inr x \<Longrightarrow> r = Inr (x, state_of r)"
  by (auto simp: result_of_def state_of_def split: sum.splits prod.splits)

definition empty_response :: Response where
  "empty_response = \<lparr>Header = [], Body = http_body []\<rparr>"

definition session_response :: Response where
  "session_response = \<lparr>Header = [], Body = http_body session_body\<rparr>"

lemma session_run:
  "result_of (CreateSessionId (mock_env (serve session_body) no_json) stale_connection ''ch1'' 5 world0)
     = Inr (''SESSION123'', None)"
  "result_of (CreateSessionId_p0 (mock_env (serve session_body) no_json) stale_connection ''ch1'' 5 world0)
     = Inr (''SESSION123'', None)"
  "result_of (PlaySeek (mock_env (serve session_body) no_json) stale_connection ''SESSION123'' 5 world0)
     = Inr (True, None)"
  "result_of (PlaySeek_p0 (mock_env (serve session_body) no_json) stale_connection ''SESSION123'' 5 world0)
     = Inr (True, None)"
  "result_of (play (mock_env (serve session_body) no_json) stale_connection ''SESSION123'' world0)
     = Inr (True, None)"
  "result_of (Play_p0 (mock_env (serve session_body) no_json) stale_connection ''SESSION123'' world0)
     = Inr (True, None)"
  by code_simp+

theorem status_line_index_out_of_range_witness:
  "result_of (CreateSessionId (mock_env (serve []) no_json) stale_connection ''ch1'' 5 world0)
     = Inl (IndexOutOfRange 1 1)
   \<and> result_of (CreateSessionId_p0 (mock_env (serve []) no_json) stale_connection ''ch1'' 5 world0)
     = Inl (IndexOutOfRange 1 1)
   \<and> result_of (PlaySeek (mock_env (serve []) no_json) stale_connection ''SESSION123'' 5 world0)
     = Inl (IndexOutOfRange 1 1)
   \<and> result_of (PlaySeek_p0 (mock_env (serve []) no_json) stale_connection ''SESSION123'' 5 world0)
     = Inl (IndexOutOfRange 1 1)
   \<and> result_of (play (mock_env (serve []) no_json) stale_connection ''SESSION123'' world0)
     = Inl (IndexOutOfRange 1 1)
   \<and> result_of (Play_p0 (mock_env (serve []) no_json) stale_connection ''SESSION123'' world0)
     = Inl (IndexOutOfRange 1 1)
   \<and> 3 \<le> length (status_lines session_response)"
  using status_line_index_out_of_range [of "mock_env (serve []) no_json" stale_connection nas_url
      empty_response world0 "''ch1''" 5 "''SESSION123''" None]
    status_line_index_out_of_range [of "mock_env (serve session_body) no_json" stale_connection nas_url
      session_response world0 "''ch1''" 5 "''SESSION123''" None "(''SESSION123'', None)" "(True, None)"]
    session_run
  by (simp add: mock_env_def mock_Parse_def stale_connection_def serve_def empty_response_def
      session_response_def status_code_def status_lines_def session_body_def nl_def Atoi_0)

section \<open>The error of a failed open step (C5)\<close>

text \<open>
  C5, at the failing input. \<open>0x93010006\<close> is stored under the key
  \<open>-1828651002\<close>. A body with that status is found in the table, and
  \<open>CreateSessionId\<close> still returns the empty session id with a nil error:
  the message is assigned to the innermost \<open>err\<close>, the outermost is
  returned. The body of the specification, \<open>"header\n37752834\n"\<close>, is not
  in the table and gives the same result.
\<close>

definition auth_failed_body :: string where
  "auth_failed_body = ''header'' @ [nl] @ ''-1828651002'' @ [nl]"

definition spec_auth_failed_body :: string where
  "spec_auth_failed_body = ''header'' @ [nl] @ ''37752834'' @ [nl]"

theorem CreateSessionId_drops_error:
  "convertHexToInt ''0x93010006'' = - 1828651002
   \<and> errorCodes (- 1828651002) = Some ''sid authentication failed''
   \<and> result_of (CreateSessionId (mock_env (serve auth_failed_body) no_json) stale_connection ''ch1'' 5 world0)
       = Inr ([], None)
   \<and> result_of (CreateSessionId_p0 (mock_env (serve auth_failed_body) no_json) stale_connection ''ch1'' 5 world0)
       = Inr ([], None)
   \<and> errorCodes 37752834 = None
   \<and> result_of (CreateSessionId (mock_env (serve spec_auth_failed_body) no_json) stale_connection ''ch1'' 5 world0)
       = Inr ([], None)
   \<and> result_of (CreateSessionId_p0 (mock_env (serve spec_auth_failed_body) no_json) stale_connection ''ch1'' 5 world0)
       = Inr ([], None)"
  by code_simp

section \<open>The order of the playback steps\<close>

text \<open>
  \<open>steps_in_order\<close> for a composed operation and its open, seek and play
  steps: the commands it requests are a prefix of open, seek, play, get; seek
  is requested only if the open step returned a session id that is not
  empty; play only if the seek step returned true; get only if the play step
  returned true; and when the open, seek or play step returns without
  success, the operation returns that step's error in the world that step
  left.
\<close>

definition steps_in_order ::
  "(world \<Rightarrow> ('r, world) outcome) \<Rightarrow>
   (world \<Rightarrow> (string \<times> string option, world) outcome) \<Rightarrow>
   (string \<Rightarrow> world \<Rightarrow> (bool \<times> string option, world) outcome) \<Rightarrow>
   (string \<Rightarrow> world \<Rightarrow> (bool \<times> string option, world) outcome) \<Rightarrow>
   (string option \<Rightarrow> 'r) \<Rightarrow> world \<Rightarrow> bool" where
  "steps_in_order operation open_step seek_step play_step failed w =
     (prefix (cmds_issued w (operation w)) [''open'', ''seek'', ''play'', ''get'']
      \<and> (''seek'' \<in> set (cmds_issued w (operation w)) \<longrightarrow>
           (\<exists>s e1 w1. open_step w = Inr ((s, e1), w1) \<and> s \<noteq> []))
      \<and> (''play'' \<in> set (cmds_issued w (operation w)) \<longrightarrow>
           (\<exists>s e1 w1 e2 w2. open_step w = Inr ((s, e1), w1) \<and>
              seek_step s w1 = Inr ((True, e2), w2)))
      \<and> (''get'' \<in> set (cmds_issued w (operation w)) \<longrightarrow>
           (\<exists>s e1 w1 e2 w2 e3 w3. open_step w = Inr ((s, e1), w1) \<and>
              seek_step s w1 = Inr ((True, e2), w2) \<and>
              play_step s w2 = Inr ((True, e3), w3)))
      \<and> (\<forall>e1 w1. open_step w = Inr (([], e1), w1) \<longrightarrow>
           operation w = Inr (failed e1, w1))
      \<and> (\<forall>s e1 w1 e2 w2. s \<noteq> [] \<and> open_step w = Inr ((s, e1), w1) \<and>
           seek_step s w1 = Inr ((False, e2), w2) \<longrightarrow>
           operation w = Inr (failed e2, w2))
      \<and> (\<forall>s e1 w1 e2 w2 e3 w3. s \<noteq> [] \<and> open_step w = Inr ((s, e1), w1) \<and>
           seek_step s w1 = Inr ((True, e2), w2) \<and>
           play_step s w2 = Inr ((False, e3), w3) \<longrightarrow>
           operation w = Inr (failed e3, w3)))"

lemma steps_in_order_get:
  "steps_in_order operation open_step seek_step play_step failed w \<Longrightarrow>
   ''get'' \<in> set (cmds_issued w (operation w)) \<Longrightarrow>
   \<exists>s e1 w1 e2 w2 e3 w3. open_step w = Inr ((s, e1), w1) \<and>
      seek_step s w1 = Inr ((True, e2), w2) \<and> play_step s w2 = Inr ((True, e3), w3)"
  by (simp add: steps_in_order_def)

lemma steps_in_order_seek_failed:
  "steps_in_order operation open_step seek_step play_step failed w \<Longrightarrow>
   open_step w = Inr ((s, e1), w1) \<Longrightarrow> s \<noteq> [] \<Longrightarrow>
   seek_step s w1 = Inr ((False, e2), w2) \<Longrightarrow> operation w = Inr (failed e2, w2)"
  unfolding steps_in_order_def by blast

text \<open>
  \<open>PlayFrame\<close> (\<^verbatim>\<open>src/unnamed/part_000\<close>) and \<open>Video\<close>
  (\<^verbatim>\<open>src/qvrpro.go\<close>) request their steps in order. The error value a
  step hands back may be nil although the step failed, and a step may panic:
  see the next section.
\<close>

theorem playback_steps_in_order:
  "steps_in_order (PlayFrame_p0 E c ch t) (CreateSessionId_p0 E c ch t)
     (\<lambda>s. PlaySeek_p0 E c s t) (Play_p0 E c) (\<lambda>e. e) w
   \<and> steps_in_order (Video E c ch t) (CreateSessionId E c ch t)
     (\<lambda>s. PlaySeek E c s t) (play E c) (\<lambda>e. (None, e)) w"
proof
  show "steps_in_order (PlayFrame_p0 E c ch t) (CreateSessionId_p0 E c ch t)
     (\<lambda>s. PlaySeek_p0 E c s t) (Play_p0 E c) (\<lambda>e. e) w"
    unfolding steps_in_order_def by (rule PlayFrame_p0_in_order)
  show "steps_in_order (Video E c ch t) (CreateSessionId E c ch t)
     (\<lambda>s. PlaySeek E c s t) (play E c) (\<lambda>e. (None, e)) w"
    unfolding steps_in_order_def by (rule Video_in_order)
qed

definition serve_each :: "string list \<Rightarrow> URL list \<Rightarrow> URL \<Rightarrow> Response option \<times> string option" where
  "serve_each bodies hist q =
     (if length hist < length bodies then serve (bodies ! length hist) hist q else refuse hist q)"

definition seek_refused :: "URL list \<Rightarrow> URL \<Rightarrow> Response option \<times> string option" where
  "seek_refused = serve_each [session_body, ''header'' @ [nl] @ ''1'' @ [nl]]"

lemma playback_runs:
  "cmds_issued world0 (PlayFrame_p0 (mock_env (serve session_body) no_json) stale_connection ''ch1'' 5 world0)
     = [''open'', ''seek'', ''play'', ''get'']"
  "cmds_issued world0 (Video (mock_env (serve session_body) no_json) stale_connection ''ch1'' 5 world0)
     = [''open'', ''seek'', ''play'', ''get'']"
  "result_of (CreateSessionId_p0 (mock_env seek_refused no_json) stale_connection ''ch1'' 5 world0)
     = Inr (''SESSION123'', None)"
  "result_of (PlaySeek_p0 (mock_env seek_refused no_json) stale_connection ''SESSION123'' 5
     (state_of (CreateSessionId_p0 (mock_env seek_refused no_json) stale_connection ''ch1'' 5 world0)))
     = Inr (False, None)"
  "result_of (CreateSessionId (mock_env seek_refused no_json) stale_connection ''ch1'' 5 world0)
     = Inr (''SESSION123'', None)"
  "result_of (PlaySeek (mock_env seek_refused no_json) stale_connection ''SESSION123'' 5
     (state_of (CreateSessionId (mock_env seek_refused no_json) stale_connection ''ch1'' 5 world0)))
     = Inr (False, None)"
  "cmds_issued world0 (PlayFrame_p0 (mock_env seek_refused no_json) stale_connection ''ch1'' 5 world0)
     = [''open'', ''seek'']"
  "cmds_issued world0 (Video (mock_env seek_refused no_json) stale_connection ''ch1'' 5 world0)
     = [''open'', ''seek'']"
  by code_simp+

theorem playback_steps_in_order_witness:
  "(\<exists>s e1 w1 e2 w2 e3 w3.
      CreateSessionId_p0 (mock_env (serve session_body) no_json) stale_connection ''ch1'' 5 world0
        = Inr ((s, e1), w1) \<and>
      PlaySeek_p0 (mock_env (serve session_body) no_json) stale_connection s 5 w1 = Inr ((True, e2), w2) \<and>
      Play_p0 (mock_env (serve session_body) no_json) stale_connection s w2 = Inr ((True, e3), w3))
   \<and> (\<exists>s e1 w1 e2 w2 e3 w3.
      CreateSessionId (mock_env (serve session_body) no_json) stale_connection ''ch1'' 5 world0
        = Inr ((s, e1), w1) \<and>
      PlaySeek (mock_env (serve session_body) no_json) stale_connection s 5 w1 = Inr ((True, e2), w2) \<and>
      play (mock_env (serve session_body) no_json) stale_connection s w2 = Inr ((True, e3), w3))
   \<and> cmds_issued world0 (PlayFrame_p0 (mock_env seek_refused no_json) stale_connection ''ch1'' 5 world0)
       = [''open'', ''seek'']
   \<and> result_of (PlayFrame_p0 (mock_env seek_refused no_json) stale_connection ''ch1'' 5 world0) = Inr None
   \<and> cmds_issued world0 (Video (mock_env seek_refused no_json) stale_connection ''ch1'' 5 world0)
       = [''open'', ''seek'']
   \<and> result_of (Video (mock_env seek_refused no_json) stale_connection ''ch1'' 5 world0) = Inr (None, None)"
proof -
  note ok = playback_steps_in_order [of "mock_env (serve session_body) no_json" stale_connection
      "''ch1''" 5 world0]
  note bad = playback_steps_in_order [of "mock_env seek_refused no_json" stale_connection
      "''ch1''" 5 world0]
  have g1: "''get'' \<in> set (cmds_issued world0
      (PlayFrame_p0 (mock_env (serve session_body) no_json) stale_connection ''ch1'' 5 world0))"
    by (simp add: playback_runs(1))
  have g2: "''get'' \<in> set (cmds_issued world0
      (Video (mock_env (serve session_body) no_json) stale_connection ''ch1'' 5 world0))"
    by (simp add: playback_runs(2))
  note a = steps_in_order_seek_failed [OF bad[THEN conjunct1] outcome_eq[OF playback_runs(3)] _
      outcome_eq[OF playback_runs(4)]]
  note b = steps_in_order_seek_failed [OF bad[THEN conjunct2] outcome_eq[OF playback_runs(5)] _
      outcome_eq[OF playback_runs(6)]]
  show ?thesis
    using steps_in_order_get [OF ok[THEN conjunct1] g1] steps_in_order_get [OF ok[THEN conjunct2] g2]
      playback_runs(7,8) a b
    by simp
qed

section \<open>Logs: requests and results\<close>

text \<open>
  The parameters \<open>Logout\<close> and the two versions of \<open>Logs\<close> add, in the
  order of the \<open>params.Add\<close> calls, and what \<open>Logs\<close> returns for each
  answer to its request.
\<close>

definition logout_params :: "Connection \<Rightarrow> Values" where
  "logout_params connection = [(''logout'', [''1'']), (''sid'', [sid connection])]"

definition logs_params :: "Connection \<Rightarrow> nat \<Rightarrow> nat \<Rightarrow> nat \<Rightarrow> Values" where
  "logs_params connection logType start maxResults =
     [(''sid'', [sid connection])]
     @ (if AllLogType \<noteq> logType then [(''log_type'', [strconv_Itoa (int64 (int logType))])] else [])
     @ [(''start'', [strconv_Itoa (int64 (int start))]),
        (''max_results'', [strconv_Itoa (int64 (int maxResults))])]"

definition logs_params_p0 :: "Connection \<Rightarrow> nat \<Rightarrow> int \<Rightarrow> int \<Rightarrow> Values" where
  "logs_params_p0 connection logType startTime maxResults =
     [(''sid'', [sid connection])]
     @ (if AllLogType \<noteq> logType then [(''log_type'', [strconv_Itoa (int64 (int logType))])] else [])
     @ (if startTime \<noteq> 0 then [(''start_time'', [strconv_Itoa startTime])] else [])
     @ [(''sort_field'', [''time'']), (''max_results'', [strconv_Itoa maxResults]), (''dir'', [''ASC''])]"



lemma logs_params_eq:
  "Values_Add (Values_Add
     (if AllLogType \<noteq> lt
      then Values_Add (Values_Add [] ''sid'' (sid c)) ''log_type'' (strconv_Itoa (int64 (int lt)))
      else Values_Add [] ''sid'' (sid c))
     ''start'' (strconv_Itoa (int64 (int st)))) ''max_results'' (strconv_Itoa (int64 (int mr)))
   = logs_params c lt st mr"
  by (simp add: Values_Add_def logs_params_def)

lemma logs_params_p0_eq:
  "Values_Add (Values_Add (Values_Add
     (if t \<noteq> 0
      then Values_Add
        (if AllLogType \<noteq> lt
         then Values_Add (Values_Add [] ''sid'' (sid c)) ''log_type'' (strconv_Itoa (int64 (int lt)))
         else Values_Add [] ''sid'' (sid c)) ''start_time'' (strconv_Itoa t)
      else (if AllLogType \<noteq> lt
         then Values_Add (Values_Add [] ''sid'' (sid c)) ''log_type'' (strconv_Itoa (int64 (int lt)))
         else Values_Add [] ''sid'' (sid c)))
     ''sort_field'' ''time'') ''max_results'' (strconv_Itoa n)) ''dir'' ''ASC''
   = logs_params_p0 c lt t n"
  by (simp add: Values_Add_def logs_params_p0_def)

lemmas logs_defs = Let_def http_Get_def io_ReadAll_def request_def logs_params_eq logs_params_p0_eq



lemma Logs_p0_entries:
  "url_Parse E (url c) = Inr u \<Longrightarrow>
   client_Get E (requests w) (request u (LogsPath c) (logs_params_p0 c lt t n)) = (Some r, None) \<Longrightarrow>
   json_Unmarshal E (content (Body r)) = Inr resp \<Longrightarrow>
   result_of (Logs_p0 E c lt t n w) = Inr (map (\<lambda>item. item\<lparr>Application := qvrApp c\<rparr>) (Items resp))"
  by (simp add: Logs_p0_def logs_defs)

lemma Logs_p0_failed:
  assumes "url_Parse E (url c) = Inr u"
  shows "client_Get E (requests w) (request u (LogsPath c) (logs_params_p0 c lt t n)) = (resp, Some e) \<Longrightarrow>
         result_of (Logs_p0 E c lt t n w) = Inr []"
    and "client_Get E (requests w) (request u (LogsPath c) (logs_params_p0 c lt t n)) = (Some r, None) \<Longrightarrow>
         json_Unmarshal E (content (Body r)) = Inl e \<Longrightarrow>
         result_of (Logs_p0 E c lt t n w) = Inr []"
  using assms by (simp_all add: Logs_p0_def logs_defs)

lemma Logs_decode_failed:
  "url_Parse E (url c) = Inr u \<Longrightarrow>
   client_Get E (requests w) (request u ''/qvrpro/logs/logs'' (logs_params c lt st mr)) = (Some r, err) \<Longrightarrow>
   json_Unmarshal E (content (Body r)) = Inl e \<Longrightarrow>
   result_of (Logs E c lt st mr w) = Inr []"
  by (simp add: Logs_def logs_defs)

lemma Logs_nil_response:
  "url_Parse E (url c) = Inr u \<Longrightarrow>
   client_Get E (requests w) (request u ''/qvrpro/logs/logs'' (logs_params c lt st mr)) = (None, err) \<Longrightarrow>
   result_of (Logs E c lt st mr w) = Inl NilDereference"
  by (simp add: Logs_def logs_defs)

lemma Logs_unparsed:
  "url_Parse E (url c) = Inl e \<Longrightarrow> Logs E c lt st mr w = Inr ([], w)"
  "url_Parse E (url c) = Inl e \<Longrightarrow> Logs_p0 E c lt t n w = Inr ([], w)"
  by (simp_all add: Logs_def Logs_p0_def)


section \<open>The error of a failed playback step (C3)\<close>

text \<open>
  C3, at failing inputs. \<open>PlayFrame\<close> passes on the error value of the step
  that failed, and the open step returns a nil error when it fails
  (\<open>CreateSessionId\<close> returns the outer \<open>err\<close>): for an open request
  answered with a status of the table, or refused by the transport,
  \<open>PlayFrame\<close> requests nothing further and returns nil, the value it
  returns when all four steps succeed. \<open>Video\<close> returns a nil error for the
  same answer, and when the transport fails at the seek step it does not
  return at all: \<open>PlaySeek\<close> of \<^verbatim>\<open>src/qvrpro.go\<close> reads
  \<open>response.Body\<close> of the nil response.
\<close>

theorem playback_failure_not_returned:
  "result_of (PlayFrame_p0 (mock_env (serve auth_failed_body) no_json) stale_connection ''ch1'' 5 world0)
     = Inr None
   \<and> cmds_issued world0 (PlayFrame_p0 (mock_env (serve auth_failed_body) no_json) stale_connection
         ''ch1'' 5 world0) = [''open'']
   \<and> result_of (PlayFrame_p0 (mock_env refuse no_json) stale_connection ''ch1'' 5 world0) = Inr None
   \<and> result_of (PlayFrame_p0 (mock_env (serve session_body) no_json) stale_connection ''ch1'' 5 world0)
     = Inr None
   \<and> result_of (Video (mock_env (serve auth_failed_body) no_json) stale_connection ''ch1'' 5 world0)
     = Inr (None, None)
   \<and> result_of (Video (mock_env (serve_each [session_body]) no_json) stale_connection ''ch1'' 5 world0)
     = Inl NilDereference
   \<and> cmds_issued world0 (Video (mock_env (serve_each [session_body]) no_json) stale_connection
         ''ch1'' 5 world0) = [''open'', ''seek'']"
  by code_simp

section \<open>Log entries (C9)\<close>

text \<open>
  A decoder for one JSON text: two items with \<open>log_id\<close> 1 and 2, every
  other field absent and so left at its zero value.
\<close>

definition zero_LogEntry :: LogEntry where
  "zero_LogEntry =
     \<lparr>UTCTime = 0, UTCTimeS = [], Content = [], Level = 0, LogID = 0, LogType = 0, NasIP = [],
      NasName = [], ServerTime = 0, SourceIP = [], SourceName = [], Time = [], Timezone = [],
      TimezoneOrder = 0, User = [], Action = [], Args = [], ChannelID = 0, EventID = 0,
      GlobalChannelID = [], MainType = 0, SubType = 0, SubTypeOrder = 0, Application = []\<rparr>"

definition dq :: "string \<Rightarrow> string" where
  "dq s = CHR 0x22 # s @ [CHR 0x22]"

definition two_items_json :: string where
  "two_items_json =
     ''{'' @ dq ''code'' @ '':0,'' @ dq ''items'' @ '':[{'' @ dq ''log_id'' @ '':1},{''
       @ dq ''log_id'' @ '':2}]}''"

definition mock_json :: "string \<Rightarrow> string + LogsResponse" where
  "mock_json body =
     (if body = two_items_json then
        Inr \<lparr>Code = 0, Items = [zero_LogEntry\<lparr>LogID := 1\<rparr>, zero_LogEntry\<lparr>LogID := 2\<rparr>],
             Mesg = [], ResponseItems = 0, TotalItems = 0\<rparr>
      else Inl ''unexpected end of JSON input'')"

definition elite_connection :: Connection where
  "elite_connection = \<lparr>url = ''https://nas'', sid = ''abc123'', expire = 900, timeout = 60, qvrApp = ''qvrelite''\<rparr>"

text \<open>
  C9. The base URL parses, the logs request of \<^verbatim>\<open>src/unnamed/part_000\<close> is
  answered without error and the body decodes to an envelope: \<open>Logs\<close>
  returns the items of the envelope, in their order, each with
  \<open>Application\<close> set to the application of the connection and every other
  field as decoded. The code of the envelope is not looked at, so this holds
  for code 0 in particular.
\<close>

theorem Logs_returns_entries:
  "url_Parse E (url c) = Inr u \<and>
   client_Get E (requests w) (request u (LogsPath c) (logs_params_p0 c logType startTime maxResults))
     = (Some r, None) \<and>
   json_Unmarshal E (content (Body r)) = Inr resp \<longrightarrow>
   result_of (Logs_p0 E c logType startTime maxResults w) =
     Inr (map (\<lambda>item. item\<lparr>Application := qvrApp c\<rparr>) (Items resp))"
  using Logs_p0_entries by blast

theorem Logs_returns_entries_witness:
  "result_of (Logs_p0 (mock_env (serve two_items_json) mock_json) stale_connection 0 0 10 world0) =
     Inr [zero_LogEntry\<lparr>LogID := 1, Application := ''qvrpro''\<rparr>,
          zero_LogEntry\<lparr>LogID := 2, Application := ''qvrpro''\<rparr>]
   \<and> result_of (Logs_p0 (mock_env (serve two_items_json) mock_json) elite_connection 3 1700000000 10 world0) =
     Inr [zero_LogEntry\<lparr>LogID := 1, Application := ''qvrelite''\<rparr>,
          zero_LogEntry\<lparr>LogID := 2, Application := ''qvrelite''\<rparr>]"
  using Logs_returns_entries [of "mock_env (serve two_items_json) mock_json" stale_connection nas_url
      world0 0 0 10 "\<lparr>Header = [], Body = http_body two_items_json\<rparr>"
      "\<lparr>Code = 0, Items = [zero_LogEntry\<lparr>LogID := 1\<rparr>, zero_LogEntry\<lparr>LogID := 2\<rparr>],
             Mesg = [], ResponseItems = 0, TotalItems = 0\<rparr>"]
    Logs_returns_entries [of "mock_env (serve two_items_json) mock_json" elite_connection nas_url
      world0 3 1700000000 10 "\<lparr>Header = [], Body = http_body two_items_json\<rparr>"
      "\<lparr>Code = 0, Items = [zero_LogEntry\<lparr>LogID := 1\<rparr>, zero_LogEntry\<lparr>LogID := 2\<rparr>],
             Mesg = [], ResponseItems = 0, TotalItems = 0\<rparr>"]
  by (simp add: mock_env_def mock_Parse_def stale_connection_def elite_connection_def serve_def
      mock_json_def)

section \<open>Failed log queries (C7)\<close>

text \<open>
  C7, at the failing input. The transport refuses the request and
  \<open>client.Get\<close> returns a nil response with its error. \<open>Logs\<close> of
  \<^verbatim>\<open>src/qvrpro.go\<close> does not look at the error and reads
  \<open>response.Body\<close>: a nil dereference, not an empty list. \<open>Logs\<close> of
  \<^verbatim>\<open>src/unnamed/part_000\<close> checks the error and returns the empty list.
\<close>

theorem Logs_transport_failure_panics:
  "result_of (Logs (mock_env refuse no_json) stale_connection 0 0 10 world0) = Inl NilDereference
   \<and> result_of (Logs_p0 (mock_env refuse no_json) stale_connection 0 0 10 world0) = Inr []"
  by code_simp

text \<open>
  Where the claim does hold: \<open>Logs\<close> of \<^verbatim>\<open>src/unnamed/part_000\<close> returns the
  empty list for a base URL that does not parse, for a request that fails and
  for a body that does not decode; \<open>Logs\<close> of \<^verbatim>\<open>src/qvrpro.go\<close> does so
  for a base URL that does not parse and for a body that does not decode.
\<close>

theorem Logs_failure_gives_empty_list:
  "(url_Parse E (url c) = Inl e \<longrightarrow>
      result_of (Logs_p0 E c logType startTime maxResults w) = Inr [] \<and>
      result_of (Logs E c logType start limit w) = Inr [])
   \<and> (url_Parse E (url c) = Inr u \<longrightarrow>
      (client_Get E (requests w) (request u (LogsPath c) (logs_params_p0 c logType startTime maxResults))
         = (resp, Some e) \<longrightarrow>
       result_of (Logs_p0 E c logType startTime maxResults w) = Inr [])
      \<and> (client_Get E (requests w) (request u (LogsPath c) (logs_params_p0 c logType startTime maxResults))
         = (Some r, None) \<and> json_Unmarshal E (content (Body r)) = Inl e \<longrightarrow>
       result_of (Logs_p0 E c logType startTime maxResults w) = Inr [])
      \<and> (client_Get E (requests w) (request u ''/qvrpro/logs/logs'' (logs_params c logType start limit))
         = (Some r, err) \<and> json_Unmarshal E (content (Body r)) = Inl e \<longrightarrow>
       result_of (Logs E c logType start limit w) = Inr []))"
proof (intro conjI impI)
  assume "url_Parse E (url c) = Inl e"
  then show "result_of (Logs_p0 E c logType startTime maxResults w) = Inr []"
    and "result_of (Logs E c logType start limit w) = Inr []"
    by (simp_all add: Logs_unparsed)
next
  assume "url_Parse E (url c) = Inr u"
    and "client_Get E (requests w) (request u (LogsPath c) (logs_params_p0 c logType startTime maxResults))
         = (resp, Some e)"
  then show "result_of (Logs_p0 E c logType startTime maxResults w) = Inr []"
    by (rule Logs_p0_failed(1))
next
  assume p: "url_Parse E (url c) = Inr u"
    and "client_Get E (requests w) (request u (LogsPath c) (logs_params_p0 c logType startTime maxResults))
         = (Some r, None) \<and> json_Unmarshal E (content (Body r)) = Inl e"
  then show "result_of (Logs_p0 E c logType startTime maxResults w) = Inr []"
    using Logs_p0_failed(2) [OF p] by blast
next
  assume p: "url_Parse E (url c) = Inr u"
    and "client_Get E (requests w) (request u ''/qvrpro/logs/logs'' (logs_params c logType start limit))
         = (Some r, err) \<and> json_Unmarshal E (content (Body r)) = Inl e"
  then show "result_of (Logs E c logType start limit w) = Inr []"
    using Logs_decode_failed [OF p] by blast
qed

theorem Logs_failure_gives_empty_list_witness:
  "result_of (Logs_p0 (mock_env refuse no_json) stale_connection 0 0 10 world0) = Inr []
   \<and> result_of (Logs_p0 (mock_env (serve ''not json'') no_json) stale_connection 0 0 10 world0) = Inr []
   \<and> result_of (Logs (mock_env (serve ''not json'') no_json) stale_connection 0 0 10 world0) = Inr []
   \<and> result_of (Logs_p0 (mock_env refuse no_json) (Create '':'' ''qvrpro'' 60) 0 0 10 world0) = Inr []"
  using Logs_failure_gives_empty_list [where E = "mock_env refuse no_json" and c = stale_connection
      and u = nas_url and w = world0 and logType = 0 and startTime = 0 and maxResults = 10
      and resp = None and e = "''connection refused''"]
    Logs_failure_gives_empty_list [where E = "mock_env (serve ''not json'') no_json"
      and c = stale_connection and u = nas_url and w = world0 and logType = 0 and startTime = 0
      and maxResults = 10 and start = 0 and limit = 10 and err = None
      and r = "\<lparr>Header = [], Body = http_body ''not json''\<rparr>"
      and e = "''unexpected end of JSON input''"]
    Logs_failure_gives_empty_list [where E = "mock_env refuse no_json"
      and c = "Create '':'' ''qvrpro'' 60" and w = world0 and logType = 0 and startTime = 0
      and maxResults = 10 and e = "''missing protocol scheme''"]
  by (simp add: mock_env_def mock_Parse_def stale_connection_def serve_def refuse_def no_json_def
      Create_def)

section \<open>Logout (C6)\<close>

text \<open>
  C6, at the failing input. The transport refuses the notify request.
  \<open>Logout\<close> of \<^verbatim>\<open>src/unnamed/part_000\<close> logs the error and then evaluates
  \<open>response.Body\<close> for its deferred \<open>Close\<close>: a nil dereference, with the
  session id and the expiry as they were. \<open>Logout\<close> of
  \<^verbatim>\<open>src/qvrpro.go\<close> returns with the session cleared.
\<close>

theorem Logout_p0_transport_failure_panics:
  "result_of (Logout_p0 (mock_env refuse no_json) fresh_connection world0) = Inl NilDereference
   \<and> sid (fst (state_of (Logout_p0 (mock_env refuse no_json) fresh_connection world0))) = ''abc123''
   \<and> expire (fst (state_of (Logout_p0 (mock_env refuse no_json) fresh_connection world0))) = 1060
   \<and> result_of (Logout (mock_env refuse no_json) fresh_connection world0) = Inr ()
   \<and> sid (fst (state_of (Logout (mock_env refuse no_json) fresh_connection world0))) = []
   \<and> expire (fst (state_of (Logout (mock_env refuse no_json) fresh_connection world0))) = 0"
  by code_simp

definition logout_request :: "URL \<Rightarrow> Connection \<Rightarrow> URL" where
  "logout_request baseUrl connection = request baseUrl ''/cgi-bin/authLogin.cgi'' (logout_params connection)"

lemma logout_params_eq:
  "Values_Add (Values_Add [] ''logout'' ''1'') ''sid'' (sid c) = logout_params c"
  by (simp add: Values_Add_def logout_params_def)

text \<open>
  Where the claim does hold: \<open>Logout\<close> of \<^verbatim>\<open>src/qvrpro.go\<close> always returns,
  with the session id empty and the expiry 0, and logs the error of a failed
  notify request; \<open>Logout\<close> of \<^verbatim>\<open>src/unnamed/part_000\<close> does the same when
  the base URL does not parse or \<open>client.Get\<close> returns a response.
\<close>

theorem Logout_clears_session:
  "result_of (Logout E c w) = Inr ()
   \<and> fst (state_of (Logout E c w)) = c\<lparr>expire := 0, sid := []\<rparr>
   \<and> (url_Parse E (url c) = Inr u \<and> client_Get E (requests w) (logout_request u c) = (resp, Some e) \<longrightarrow>
        logged (snd (state_of (Logout E c w))) = logged w @ [e])
   \<and> (url_Parse E (url c) = Inl e \<longrightarrow>
        result_of (Logout_p0 E c w) = Inr () \<and>
        fst (state_of (Logout_p0 E c w)) = c\<lparr>expire := 0, sid := []\<rparr>)
   \<and> (url_Parse E (url c) = Inr u \<and> client_Get E (requests w) (logout_request u c) = (Some r, err) \<longrightarrow>
        result_of (Logout_p0 E c w) = Inr () \<and>
        fst (state_of (Logout_p0 E c w)) = c\<lparr>expire := 0, sid := []\<rparr>)"
  by (auto simp: Logout_def Logout_p0_def Let_def http_Get_def request_def logout_request_def
      logout_params_eq log_Print_def log_Println_def log_INFO_def
      split: sum.splits option.splits prod.splits)

theorem Logout_clears_session_witness:
  "logged (snd (state_of (Logout (mock_env refuse no_json) fresh_connection world0))) = [''connection refused'']
   \<and> fst (state_of (Logout (mock_env refuse no_json) fresh_connection world0)) =
       fresh_connection\<lparr>expire := 0, sid := []\<rparr>
   \<and> fst (state_of (Logout_p0 (mock_env (serve []) no_json) fresh_connection world0)) =
       fresh_connection\<lparr>expire := 0, sid := []\<rparr>
   \<and> fst (state_of (Logout_p0 (mock_env refuse no_json) (Create '':'' ''qvrpro'' 60) world0)) =
       (Create '':'' ''qvrpro'' 60)\<lparr>expire := 0, sid := []\<rparr>"
  using Logout_clears_session [where E = "mock_env refuse no_json" and c = fresh_connection
      and w = world0 and u = nas_url and resp = None and e = "''connection refused''"]
    Logout_clears_session [where E = "mock_env (serve []) no_json" and c = fresh_connection
      and w = world0 and u = nas_url and r = "\<lparr>Header = [], Body = http_body []\<rparr>" and err = None]
    Logout_clears_session [where E = "mock_env refuse no_json" and c = "Create '':'' ''qvrpro'' 60"
      and w = world0 and e = "''missing protocol scheme''"]
  by (simp add: mock_env_def mock_Parse_def fresh_connection_def serve_def refuse_def world0_def
      Create_def)

section \<open>Failed logins (C2)\<close>

definition half_connection :: Connection where
  "half_connection = \<lparr>url = ''https://nas'', sid = [], expire = 1060, timeout = 60, qvrApp = ''qvrpro''\<rparr>"

text \<open>
  C2, at failing inputs. The server answers \<open>authPassed = 0\<close>: \<open>Login\<close>
  (either version) returns false without calling \<open>Logout\<close>, and the stale
  session id and expiry stay. A connection whose last successful login came
  with an empty \<open>authSid\<close> has an expiry and no session id, and keeps both
  through a rejected login. In \<^verbatim>\<open>src/unnamed/part_000\<close>, a \<open>Login\<close> whose
  request the transport refuses calls \<open>Logout\<close>, whose own request is refused
  too: the nil dereference of \<open>Logout\<close> ends \<open>Login\<close> before the session is
  cleared.
\<close>

theorem Login_rejected_keeps_session:
  "result_of (Login (mock_env (serve auth_rejected_xml) no_json) stale_connection ''admin'' ''wrong'' world0)
     = Inr False
   \<and> sid (fst (state_of (Login (mock_env (serve auth_rejected_xml) no_json) stale_connection
         ''admin'' ''wrong'' world0))) = ''abc123''
   \<and> expire (fst (state_of (Login (mock_env (serve auth_rejected_xml) no_json) stale_connection
         ''admin'' ''wrong'' world0))) = 900
   \<and> result_of (Login_p0 (mock_env (serve auth_rejected_xml) no_json) stale_connection ''admin'' ''wrong'' world0)
     = Inr False
   \<and> sid (fst (state_of (Login_p0 (mock_env (serve auth_rejected_xml) no_json) stale_connection
         ''admin'' ''wrong'' world0))) = ''abc123''
   \<and> expire (fst (state_of (Login_p0 (mock_env (serve auth_rejected_xml) no_json) stale_connection
         ''admin'' ''wrong'' world0))) = 900
   \<and> fst (state_of (Login (mock_env (serve auth_ok_no_sid_xml) no_json) (Create ''https://nas'' ''qvrpro'' 60)
         ''admin'' ''secret'' world0)) = half_connection
   \<and> result_of (Login (mock_env (serve auth_rejected_xml) no_json) half_connection ''admin'' ''wrong'' world0)
     = Inr False
   \<and> sid (fst (state_of (Login (mock_env (serve auth_rejected_xml) no_json) half_connection
         ''admin'' ''wrong'' world0))) = []
   \<and> expire (fst (state_of (Login (mock_env (serve auth_rejected_xml) no_json) half_connection
         ''admin'' ''wrong'' world0))) = 1060
   \<and> result_of (Login_p0 (mock_env refuse no_json) stale_connection ''admin'' ''secret'' world0)
     = Inl NilDereference
   \<and> sid (fst (state_of (Login_p0 (mock_env refuse no_json) stale_connection
         ''admin'' ''secret'' world0))) = ''abc123''"
  by code_simp

lemma Logout_result:
  "\<exists>w'. Logout E c w = Inr ((), (c\<lparr>expire := 0, sid := []\<rparr>, w'))"
  by (auto simp: Logout_def Let_def http_Get_def split: sum.splits option.splits prod.splits)

lemma Login_fails_after_Logout:
  "result_of (case Logout E c w of Inl a \<Rightarrow> Inl a | Inr (u, s) \<Rightarrow> Inr (False, s)) = Inr False
   \<and> fst (state_of (case Logout E c w of Inl a \<Rightarrow> Inl a | Inr (u, s) \<Rightarrow> Inr (False, s))) =
       c\<lparr>expire := 0, sid := []\<rparr>"
  using Logout_result [of E c w] by auto

text \<open>
  Where the claim does hold: in \<^verbatim>\<open>src/qvrpro.go\<close>, a \<open>Login\<close> that does not
  reuse the session and fails by a base URL that does not parse, a request
  that fails, a body that cannot be read or XML that does not decode returns
  false with the session id empty and the expiry 0.
\<close>

theorem Login_failure_clears_session:
  assumes stale: "\<not> (sid c \<noteq> [] \<and> time_Now_Unix E (clock w) < expire c)"
  shows
  "(url_Parse E (url c) = Inl e \<longrightarrow>
      result_of (Login E c user password w) = Inr False \<and>
      fst (state_of (Login E c user password w)) = c\<lparr>expire := 0, sid := []\<rparr>)
   \<and> (url_Parse E (url c) = Inr u \<longrightarrow>
      (client_Get E (requests w) (login_request u user password) = (resp, Some e) \<longrightarrow>
         result_of (Login E c user password w) = Inr False \<and>
         fst (state_of (Login E c user password w)) = c\<lparr>expire := 0, sid := []\<rparr>)
      \<and> (client_Get E (requests w) (login_request u user password) = (Some r, None) \<and>
          readErr (Body r) = Some e \<longrightarrow>
         result_of (Login E c user password w) = Inr False \<and>
         fst (state_of (Login E c user password w)) = c\<lparr>expire := 0, sid := []\<rparr>)
      \<and> (client_Get E (requests w) (login_request u user password) = (Some r, None) \<and>
          readErr (Body r) = None \<and> xml_Unmarshal E (content (Body r)) = Inl e \<longrightarrow>
         result_of (Login E c user password w) = Inr False \<and>
         fst (state_of (Login E c user password w)) = c\<lparr>expire := 0, sid := []\<rparr>))"
  using stale Login_fails_after_Logout [of E c]
  by (auto simp: Login_def time_Now_def Let_def http_Get_def login_params_eq login_request_def
        io_ReadAll_def split: if_splits)

theorem Login_failure_clears_session_witness:
  "result_of (Login (mock_env refuse no_json) stale_connection ''admin'' ''secret'' world0) = Inr False
   \<and> fst (state_of (Login (mock_env refuse no_json) stale_connection ''admin'' ''secret'' world0)) =
       stale_connection\<lparr>expire := 0, sid := []\<rparr>
   \<and> result_of (Login (mock_env (serve ''<html>'') no_json) stale_connection ''admin'' ''secret'' world0)
       = Inr False
   \<and> fst (state_of (Login (mock_env (serve ''<html>'') no_json) stale_connection ''admin'' ''secret'' world0)) =
       stale_connection\<lparr>expire := 0, sid := []\<rparr>"
  using Login_failure_clears_session [where E = "mock_env refuse no_json" and c = stale_connection
      and w = world0 and u = nas_url and user = "''admin''" and password = "''secret''"
      and resp = None and e = "''connection refused''"]
    Login_failure_clears_session [where E = "mock_env (serve ''<html>'') no_json" and c = stale_connection
      and w = world0 and u = nas_url and user = "''admin''" and password = "''secret''"
      and r = "\<lparr>Header = [], Body = http_body ''<html>''\<rparr>" and e = "''EOF''"]
  by (simp add: mock_env_def mock_Parse_def stale_connection_def serve_def refuse_def world0_def
      mock_xml_def auth_ok_xml_def auth_rejected_xml_def auth_ok_no_sid_xml_def)

section \<open>Query strings (C8)\<close>





end
